theory Spec2Isabelle
  imports Complex_Main "HOL-Library.Multiset" "HOL-Library.Sublist"
begin

section \<open>Data model (shared/schema.ts)\<close>

text \<open>
  The tables of \<^verbatim>\<open>shared/schema.ts\<close>, one record per row type. Column types:
  \<^verbatim>\<open>varchar\<close>/\<^verbatim>\<open>text\<close> is \<^typ>\<open>string\<close>, \<^verbatim>\<open>boolean\<close> is \<^typ>\<open>bool\<close>,
  \<^verbatim>\<open>integer\<close> is \<^typ>\<open>int\<close>, \<^verbatim>\<open>timestamp\<close> is an \<^typ>\<open>int\<close> (milliseconds);
  a column without \<^verbatim>\<open>notNull()\<close> is an option (\<open>None\<close> is SQL NULL).
  The \<^verbatim>\<open>jsonb\<close> column \<^verbatim>\<open>questions.options\<close> holds the list of option strings
  the clients write there, or NULL. Of \<^verbatim>\<open>users\<close> only the key and the e-mail are kept.
\<close>

type_synonym timestamp = int

record user =
  u_id :: string
  u_email :: "string option"

record survey =
  s_id :: string
  s_title :: string
  s_description :: "string option"
  s_createdBy :: string
  s_status :: string
  s_anonymous :: bool
  s_multipleResponses :: bool
  s_shareToken :: string
  s_createdAt :: "timestamp option"
  s_updatedAt :: "timestamp option"

record question =
  q_id :: string
  q_surveyId :: string
  q_text :: string
  q_type :: string
  q_required :: bool
  q_options :: "string list option"
  q_order :: int
  q_createdAt :: "timestamp option"

record response =
  r_id :: string
  r_surveyId :: string
  r_respondentId :: "string option"
  r_createdAt :: "timestamp option"

record answer =
  a_id :: string
  a_responseId :: string
  a_questionId :: string
  a_value :: string
  a_createdAt :: "timestamp option"

text \<open>The database: one list of rows per table, in insertion order.\<close>

record db =
  users :: "user list"
  surveys :: "survey list"
  questions :: "question list"
  responses :: "response list"
  answers :: "answer list"

text \<open>
  The constraints the schema declares: primary keys, the unique \<^verbatim>\<open>share_token\<close>,
  and the foreign keys. \<open>list_all\<close> keeps the predicates executable.
\<close>

definition pk_ok :: "db \<Rightarrow> bool" where
  "pk_ok d = (distinct (map s_id (surveys d)) \<and> distinct (map q_id (questions d))
     \<and> distinct (map r_id (responses d)) \<and> distinct (map a_id (answers d)))"

definition unique_ok :: "db \<Rightarrow> bool" where
  "unique_ok d = distinct (map s_shareToken (surveys d))"

definition fk_ok :: "db \<Rightarrow> bool" where
  "fk_ok d = (list_all (\<lambda>s. s_createdBy s \<in> set (map u_id (users d))) (surveys d)
     \<and> list_all (\<lambda>q. q_surveyId q \<in> set (map s_id (surveys d))) (questions d)
     \<and> list_all (\<lambda>r. r_surveyId r \<in> set (map s_id (surveys d))) (responses d)
     \<and> list_all (\<lambda>a. a_responseId a \<in> set (map r_id (responses d))
                   \<and> a_questionId a \<in> set (map q_id (questions d))) (answers d))"

section \<open>Results of a route\<close>

text \<open>
  What a route handler sends: \<^verbatim>\<open>res.json(x)\<close> (status 200), \<^verbatim>\<open>res.status(204).send()\<close>,
  and the three error answers 404, 400 (a \<^verbatim>\<open>ZodError\<close>) and 500 (anything else thrown).
\<close>

datatype 'a http = Json 'a | NoContent | NotFound | BadRequest | ServerError

section \<open>Storage: reads (DatabaseStorage)\<close>

text \<open>
  \<^verbatim>\<open>const [survey] = await db.select().from(surveys).where(eq(...))\<close> takes the first
  row of the result, \<^verbatim>\<open>undefined\<close> (here \<open>None\<close>) when there is none.
\<close>

definition getSurvey :: "db \<Rightarrow> string \<Rightarrow> survey option" where
  "getSurvey d ident = find (\<lambda>s. s_id s = ident) (surveys d)"

definition getSurveyByShareToken :: "db \<Rightarrow> string \<Rightarrow> survey option" where
  "getSurveyByShareToken d shareToken = find (\<lambda>s. s_shareToken s = shareToken) (surveys d)"

text \<open>\<^verbatim>\<open>.where(eq(questions.surveyId, surveyId)).orderBy(questions.order)\<close>: ascending.\<close>

definition getQuestionsBySurvey :: "db \<Rightarrow> string \<Rightarrow> question list" where
  "getQuestionsBySurvey d surveyId =
     sort_key q_order (filter (\<lambda>q. q_surveyId q = surveyId) (questions d))"

section \<open>Storage: writes (DatabaseStorage)\<close>

text \<open>
  A statement that would leave a table in violation of a declared constraint fails and
  changes nothing; the storage method then throws, which is \<open>None\<close> here. The checks are
  made on the tables as the statement would leave them.
\<close>

definition constraints_ok :: "db \<Rightarrow> bool" where
  "constraints_ok d = (pk_ok d \<and> unique_ok d \<and> fk_ok d)"

definition commit :: "db \<Rightarrow> db option" where
  "commit d = (if constraints_ok d then Some d else None)"

text \<open>
  \<^verbatim>\<open>InsertSurvey\<close> and \<^verbatim>\<open>Partial<InsertSurvey>\<close> (and the same for questions): a value
  for some of the columns, \<open>None\<close> for a key that is absent. A nullable column has a
  second option for NULL.
\<close>

record survey_values =
  sv_id :: "string option"
  sv_title :: "string option"
  sv_description :: "string option option"
  sv_createdBy :: "string option"
  sv_status :: "string option"
  sv_anonymous :: "bool option"
  sv_multipleResponses :: "bool option"
  sv_shareToken :: "string option"
  sv_createdAt :: "timestamp option option"
  sv_updatedAt :: "timestamp option option"

record question_values =
  qv_id :: "string option"
  qv_surveyId :: "string option"
  qv_text :: "string option"
  qv_type :: "string option"
  qv_required :: "bool option"
  qv_options :: "string list option option"
  qv_order :: "int option"
  qv_createdAt :: "timestamp option option"

text \<open>
  The values the routes insert for a response and an answer: the parsed
  \<^verbatim>\<open>insertResponseSchema\<close> and \<^verbatim>\<open>insertAnswerSchema\<close> objects, which omit \<^verbatim>\<open>id\<close> and
  \<^verbatim>\<open>createdAt\<close>, so both columns take their defaults.
\<close>

record insert_response =
  ir_surveyId :: string
  ir_respondentId :: "string option"

record insert_answer =
  ia_responseId :: string
  ia_questionId :: string
  ia_value :: string

definition or_default :: "'a option \<Rightarrow> 'a \<Rightarrow> 'a" where
  "or_default v dflt = (case v of None \<Rightarrow> dflt | Some x \<Rightarrow> x)"

text \<open>A PostgreSQL \<^verbatim>\<open>integer\<close> column is 32 bits wide.\<close>

definition int4_ok :: "int \<Rightarrow> bool" where
  "int4_ok n = (- 2147483648 \<le> n \<and> n \<le> 2147483647)"

text \<open>
  \<^verbatim>\<open>createSurvey\<close>: one INSERT. The defaults of the schema fill the absent columns:
  \<^verbatim>\<open>gen_random_uuid()\<close> for \<^verbatim>\<open>id\<close> and \<^verbatim>\<open>share_token\<close> (the two values drawn are the
  parameters \<open>uuid1\<close> and \<open>uuid2\<close>), \<^verbatim>\<open>defaultNow()\<close> for both timestamps (the clock
  is the parameter \<open>now\<close>), \<^verbatim>\<open>draft\<close>, \<^verbatim>\<open>true\<close> and \<^verbatim>\<open>false\<close>. A NOT NULL column
  without a default and without a value makes the INSERT fail.
\<close>

definition createSurvey ::
  "db \<Rightarrow> timestamp \<Rightarrow> string \<Rightarrow> string \<Rightarrow> survey_values \<Rightarrow> (survey \<times> db) option" where
  "createSurvey d now uuid1 uuid2 v =
     (case (sv_title v, sv_createdBy v) of
        (Some title, Some createdBy) \<Rightarrow>
          (let newSurvey = \<lparr> s_id = or_default (sv_id v) uuid1,
                 s_title = title,
                 s_description = or_default (sv_description v) None,
                 s_createdBy = createdBy,
                 s_status = or_default (sv_status v) ''draft'',
                 s_anonymous = or_default (sv_anonymous v) True,
                 s_multipleResponses = or_default (sv_multipleResponses v) False,
                 s_shareToken = or_default (sv_shareToken v) uuid2,
                 s_createdAt = or_default (sv_createdAt v) (Some now),
                 s_updatedAt = or_default (sv_updatedAt v) (Some now) \<rparr>
           in map_option (Pair newSurvey) (commit (d\<lparr>surveys := surveys d @ [newSurvey]\<rparr>)))
      | _ \<Rightarrow> None)"

definition createQuestion ::
  "db \<Rightarrow> timestamp \<Rightarrow> string \<Rightarrow> question_values \<Rightarrow> (question \<times> db) option" where
  "createQuestion d now uuid v =
     (case (qv_surveyId v, qv_text v, qv_type v, qv_order v) of
        (Some surveyId, Some txt, Some ty, Some ord) \<Rightarrow>
          (let newQuestion = \<lparr> q_id = or_default (qv_id v) uuid,
                 q_surveyId = surveyId,
                 q_text = txt,
                 q_type = ty,
                 q_required = or_default (qv_required v) False,
                 q_options = or_default (qv_options v) None,
                 q_order = ord,
                 q_createdAt = or_default (qv_createdAt v) (Some now) \<rparr>
           in if int4_ok ord
              then map_option (Pair newQuestion)
                     (commit (d\<lparr>questions := questions d @ [newQuestion]\<rparr>))
              else None)
      | _ \<Rightarrow> None)"

definition createResponse ::
  "db \<Rightarrow> timestamp \<Rightarrow> string \<Rightarrow> insert_response \<Rightarrow> (response \<times> db) option" where
  "createResponse d now uuid v =
     (let newResponse = \<lparr> r_id = uuid, r_surveyId = ir_surveyId v,
            r_respondentId = ir_respondentId v, r_createdAt = Some now \<rparr>
      in map_option (Pair newResponse) (commit (d\<lparr>responses := responses d @ [newResponse]\<rparr>)))"

definition createAnswer ::
  "db \<Rightarrow> timestamp \<Rightarrow> string \<Rightarrow> insert_answer \<Rightarrow> (answer \<times> db) option" where
  "createAnswer d now uuid v =
     (let newAnswer = \<lparr> a_id = uuid, a_responseId = ia_responseId v,
            a_questionId = ia_questionId v, a_value = ia_value v, a_createdAt = Some now \<rparr>
      in map_option (Pair newAnswer) (commit (d\<lparr>answers := answers d @ [newAnswer]\<rparr>)))"

text \<open>
  The SET clause of an UPDATE: every column with a value in the payload takes it, every
  other column keeps what the row has.
\<close>

definition survey_set :: "survey_values \<Rightarrow> survey \<Rightarrow> survey" where
  "survey_set v s =
     \<lparr> s_id = or_default (sv_id v) (s_id s),
       s_title = or_default (sv_title v) (s_title s),
       s_description = or_default (sv_description v) (s_description s),
       s_createdBy = or_default (sv_createdBy v) (s_createdBy s),
       s_status = or_default (sv_status v) (s_status s),
       s_anonymous = or_default (sv_anonymous v) (s_anonymous s),
       s_multipleResponses = or_default (sv_multipleResponses v) (s_multipleResponses s),
       s_shareToken = or_default (sv_shareToken v) (s_shareToken s),
       s_createdAt = or_default (sv_createdAt v) (s_createdAt s),
       s_updatedAt = or_default (sv_updatedAt v) (s_updatedAt s) \<rparr>"

definition question_set :: "question_values \<Rightarrow> question \<Rightarrow> question" where
  "question_set v q =
     \<lparr> q_id = or_default (qv_id v) (q_id q),
       q_surveyId = or_default (qv_surveyId v) (q_surveyId q),
       q_text = or_default (qv_text v) (q_text q),
       q_type = or_default (qv_type v) (q_type q),
       q_required = or_default (qv_required v) (q_required q),
       q_options = or_default (qv_options v) (q_options q),
       q_order = or_default (qv_order v) (q_order q),
       q_createdAt = or_default (qv_createdAt v) (q_createdAt q) \<rparr>"

definition no_question_values :: "question_values \<Rightarrow> bool" where
  "no_question_values v = (qv_id v = None \<and> qv_surveyId v = None \<and> qv_text v = None
     \<and> qv_type v = None \<and> qv_required v = None \<and> qv_options v = None
     \<and> qv_order v = None \<and> qv_createdAt v = None)"

text \<open>
  \<^verbatim>\<open>updateSurvey\<close>: \<^verbatim>\<open>.set({ ...updates, updatedAt: new Date() })\<close>, so the clock
  overrides an \<^verbatim>\<open>updatedAt\<close> of the payload; \<^verbatim>\<open>.where(eq(surveys.id, id)).returning()\<close>
  and \<^verbatim>\<open>const [updated]\<close>: the first updated row, \<^verbatim>\<open>undefined\<close> when no row has the id
  (the inner option). The outer option is the failure of the statement.
\<close>

definition updateSurvey ::
  "db \<Rightarrow> timestamp \<Rightarrow> string \<Rightarrow> survey_values \<Rightarrow> (survey option \<times> db) option" where
  "updateSurvey d now ident updates =
     (let v = updates\<lparr>sv_updatedAt := Some (Some now)\<rparr>;
          updated = map (survey_set v) (filter (\<lambda>s. s_id s = ident) (surveys d));
          d' = d\<lparr>surveys := map (\<lambda>s. if s_id s = ident then survey_set v s else s) (surveys d)\<rparr>
      in map_option (Pair (case updated of [] \<Rightarrow> None | u # _ \<Rightarrow> Some u)) (commit d'))"

text \<open>
  \<^verbatim>\<open>updateQuestion\<close>: \<^verbatim>\<open>.set(updates)\<close> and nothing else: the \<^verbatim>\<open>questions\<close> table has
  no \<^verbatim>\<open>updated_at\<close> column and the clock is not read (the parameter \<open>now\<close> is there
  only to give both update methods one shape). drizzle-orm throws
  \<^verbatim>\<open>No values to set\<close> on a payload without any value.
\<close>

definition updateQuestion ::
  "db \<Rightarrow> timestamp \<Rightarrow> string \<Rightarrow> question_values \<Rightarrow> (question option \<times> db) option" where
  "updateQuestion d now ident updates =
     (if no_question_values updates then None
      else
       (let updated = map (question_set updates) (filter (\<lambda>q. q_id q = ident) (questions d));
            d' = d\<lparr>questions :=
                    map (\<lambda>q. if q_id q = ident then question_set updates q else q) (questions d)\<rparr>
        in if list_all (\<lambda>q. int4_ok (q_order q)) updated
           then map_option (Pair (case updated of [] \<Rightarrow> None | u # _ \<Rightarrow> Some u)) (commit d')
           else None))"

text \<open>
  \<^verbatim>\<open>deleteSurvey\<close> and \<^verbatim>\<open>deleteQuestion\<close>: one DELETE each. The foreign keys
  \<^verbatim>\<open>questions.survey_id\<close>, \<^verbatim>\<open>responses.survey_id\<close>, \<^verbatim>\<open>answers.response_id\<close> and
  \<^verbatim>\<open>answers.question_id\<close> are declared \<^verbatim>\<open>onDelete: "cascade"\<close>: the referencing
  rows go with the row they reference.
\<close>

definition deleteSurvey :: "db \<Rightarrow> string \<Rightarrow> db" where
  "deleteSurvey d ident =
     (let goneQuestions = map q_id (filter (\<lambda>q. q_surveyId q = ident) (questions d));
          goneResponses = map r_id (filter (\<lambda>r. r_surveyId r = ident) (responses d))
      in d\<lparr> surveys := filter (\<lambda>s. s_id s \<noteq> ident) (surveys d),
            questions := filter (\<lambda>q. q_surveyId q \<noteq> ident) (questions d),
            responses := filter (\<lambda>r. r_surveyId r \<noteq> ident) (responses d),
            answers := filter (\<lambda>a. a_responseId a \<notin> set goneResponses
                                   \<and> a_questionId a \<notin> set goneQuestions) (answers d) \<rparr>)"

definition deleteQuestion :: "db \<Rightarrow> string \<Rightarrow> db" where
  "deleteQuestion d ident =
     d\<lparr> questions := filter (\<lambda>q. q_id q \<noteq> ident) (questions d),
        answers := filter (\<lambda>a. a_questionId a \<noteq> ident) (answers d) \<rparr>"

section \<open>Request bodies and the zod schemas\<close>

text \<open>
  A value of a request body, as far as the routes look at it: absent, \<^verbatim>\<open>null\<close>, a
  boolean, a number, a string, or an object or array (\<open>JObj\<close>, never inspected). The
  routes only test a number for being zero, so an integer stands for it.
\<close>

datatype json = JUndefined | JNull | JBool bool | JNum int | JStr string | JObj

fun truthy :: "json \<Rightarrow> bool" where
  "truthy JUndefined = False"
| "truthy JNull = False"
| "truthy (JBool b) = b"
| "truthy (JNum n) = (n \<noteq> 0)"
| "truthy (JStr s) = (s \<noteq> [])"
| "truthy JObj = True"

text \<open>
  The field schemas \<^verbatim>\<open>createInsertSchema\<close> derives from the columns; \<open>None\<close> is a
  \<^verbatim>\<open>ZodError\<close>. A NOT NULL column without a default is a required string; one with a
  default is optional (absent gives \<open>Some None\<close>); a nullable column is optional and
  also takes \<^verbatim>\<open>null\<close>.
\<close>

fun z_string :: "json \<Rightarrow> string option" where
  "z_string (JStr s) = Some s"
| "z_string _ = None"

fun z_string_optional :: "json \<Rightarrow> string option option" where
  "z_string_optional JUndefined = Some None"
| "z_string_optional (JStr s) = Some (Some s)"
| "z_string_optional _ = None"

fun z_boolean_optional :: "json \<Rightarrow> bool option option" where
  "z_boolean_optional JUndefined = Some None"
| "z_boolean_optional (JBool b) = Some (Some b)"
| "z_boolean_optional _ = None"

fun z_string_nullable_optional :: "json \<Rightarrow> string option option option" where
  "z_string_nullable_optional JUndefined = Some None"
| "z_string_nullable_optional JNull = Some (Some None)"
| "z_string_nullable_optional (JStr s) = Some (Some (Some s))"
| "z_string_nullable_optional _ = None"

text \<open>The body of POST /api/surveys and the elements of its \<^verbatim>\<open>questions\<close> array.\<close>

record raw_question =
  rq_text :: json
  rq_type :: json
  rq_required :: json
  rq_options :: "string list option"

record survey_body =
  sb_title :: json
  sb_description :: json
  sb_status :: json
  sb_anonymous :: json
  sb_multipleResponses :: json
  sb_questions :: "raw_question list option"

text \<open>
  \<^verbatim>\<open>insertSurveySchema\<close> omits \<^verbatim>\<open>id\<close>, \<^verbatim>\<open>createdBy\<close>, \<^verbatim>\<open>shareToken\<close>, \<^verbatim>\<open>createdAt\<close>
  and \<^verbatim>\<open>updatedAt\<close>; a zod object drops the keys it does not know.
\<close>

definition insertSurveySchema_parse :: "survey_body \<Rightarrow> survey_values option" where
  "insertSurveySchema_parse b =
     (case (z_string (sb_title b), z_string_nullable_optional (sb_description b),
            z_string_optional (sb_status b), z_boolean_optional (sb_anonymous b),
            z_boolean_optional (sb_multipleResponses b)) of
        (Some title, Some description, Some status, Some anonymous, Some multipleResponses) \<Rightarrow>
          Some \<lparr> sv_id = None, sv_title = Some title, sv_description = description,
                 sv_createdBy = None, sv_status = status, sv_anonymous = anonymous,
                 sv_multipleResponses = multipleResponses, sv_shareToken = None,
                 sv_createdAt = None, sv_updatedAt = None \<rparr>
      | _ \<Rightarrow> None)"

text \<open>
  \<^verbatim>\<open>insertQuestionSchema.parse({ ...q, order: index })\<close>: the schema omits \<^verbatim>\<open>id\<close>,
  \<^verbatim>\<open>surveyId\<close> and \<^verbatim>\<open>createdAt\<close>; \<^verbatim>\<open>order\<close> is the array index whatever \<^verbatim>\<open>q\<close> holds.
\<close>

definition insertQuestionSchema_parse :: "raw_question \<Rightarrow> nat \<Rightarrow> question_values option" where
  "insertQuestionSchema_parse q index =
     (case (z_string (rq_text q), z_string (rq_type q), z_boolean_optional (rq_required q)) of
        (Some txt, Some ty, Some required) \<Rightarrow>
          Some \<lparr> qv_id = None, qv_surveyId = None, qv_text = Some txt, qv_type = Some ty,
                 qv_required = required, qv_options = Some (rq_options q),
                 qv_order = Some (int index), qv_createdAt = None \<rparr>
      | _ \<Rightarrow> None)"

text \<open>The body of POST /api/public/surveys/:shareToken/responses.\<close>

record raw_answer =
  ra_questionId :: json
  ra_value :: json

record response_body =
  rb_respondentId :: json
  rb_answers :: "raw_answer list option"

text \<open>
  \<^verbatim>\<open>insertResponseSchema.parse({ surveyId: survey.id, respondentId:
  req.body.respondentId || null })\<close>: a falsy \<^verbatim>\<open>respondentId\<close> becomes \<^verbatim>\<open>null\<close>.
\<close>

definition insertResponseSchema_parse :: "string \<Rightarrow> json \<Rightarrow> insert_response option" where
  "insertResponseSchema_parse surveyId respondentId =
     (case z_string_nullable_optional (if truthy respondentId then respondentId else JNull) of
        Some (Some r) \<Rightarrow> Some \<lparr> ir_surveyId = surveyId, ir_respondentId = r \<rparr>
      | Some None \<Rightarrow> Some \<lparr> ir_surveyId = surveyId, ir_respondentId = None \<rparr>
      | None \<Rightarrow> None)"

text \<open>\<^verbatim>\<open>insertAnswerSchema.parse({ ...a, responseId: response.id })\<close>.\<close>

definition insertAnswerSchema_parse :: "raw_answer \<Rightarrow> string \<Rightarrow> insert_answer option" where
  "insertAnswerSchema_parse a responseId =
     (case (z_string (ra_questionId a), z_string (ra_value a)) of
        (Some questionId, Some v) \<Rightarrow>
          Some \<lparr> ia_responseId = responseId, ia_questionId = questionId, ia_value = v \<rparr>
      | _ \<Rightarrow> None)"

section \<open>Routes that write\<close>

text \<open>
  How an \<^verbatim>\<open>array.map(x => storage.create...(schema.parse(x)))\<close> followed by
  \<^verbatim>\<open>await Promise.all(...)\<close> ends. A \<^verbatim>\<open>parse\<close> that throws leaves the \<^verbatim>\<open>map\<close> at
  once (\<open>Thrown\<close>): the elements after it are never looked at, the inserts already
  started for the elements before it still run. An insert that fails rejects its
  promise and with it \<^verbatim>\<open>Promise.all\<close> (\<open>Rejected\<close>), and the other inserts still run.
  The inserts are taken in array order.
\<close>

datatype outcome = Fulfilled | Rejected | Thrown

fun question_promises ::
  "db \<Rightarrow> timestamp \<Rightarrow> (nat \<Rightarrow> string) \<Rightarrow> string \<Rightarrow> nat \<Rightarrow> bool \<Rightarrow> raw_question list
     \<Rightarrow> outcome \<times> db" where
  "question_promises d now gen surveyId index rejected [] =
     (if rejected then Rejected else Fulfilled, d)"
| "question_promises d now gen surveyId index rejected (q # qs) =
     (case insertQuestionSchema_parse q index of
        None \<Rightarrow> (Thrown, d)
      | Some questionData \<Rightarrow>
          (case createQuestion d now (gen (2 + index))
                  (questionData\<lparr>qv_surveyId := Some surveyId\<rparr>) of
             None \<Rightarrow> question_promises d now gen surveyId (Suc index) True qs
           | Some (_, d') \<Rightarrow> question_promises d' now gen surveyId (Suc index) rejected qs))"

text \<open>
  POST /api/surveys, for the authenticated \<open>userId\<close>. \<open>gen k\<close> is the k-th value
  \<^verbatim>\<open>gen_random_uuid()\<close> returns during the request: the survey's id, its share token,
  then one id per question.
\<close>

definition route_post_survey ::
  "db \<Rightarrow> timestamp \<Rightarrow> (nat \<Rightarrow> string) \<Rightarrow> string \<Rightarrow> survey_body \<Rightarrow> survey http \<times> db" where
  "route_post_survey d now gen userId body =
     (case insertSurveySchema_parse body of
        None \<Rightarrow> (BadRequest, d)
      | Some surveyData \<Rightarrow>
          (case createSurvey d now (gen 0) (gen 1) (surveyData\<lparr>sv_createdBy := Some userId\<rparr>) of
             None \<Rightarrow> (ServerError, d)
           | Some (survey, d1) \<Rightarrow>
               (case sb_questions body of
                  None \<Rightarrow> (Json survey, d1)
                | Some qs \<Rightarrow>
                    (case question_promises d1 now gen (s_id survey) 0 False qs of
                       (Fulfilled, d2) \<Rightarrow> (Json survey, d2)
                     | (Rejected, d2) \<Rightarrow> (ServerError, d2)
                     | (Thrown, d2) \<Rightarrow> (BadRequest, d2)))))"

fun answer_promises ::
  "db \<Rightarrow> timestamp \<Rightarrow> (nat \<Rightarrow> string) \<Rightarrow> string \<Rightarrow> nat \<Rightarrow> bool \<Rightarrow> raw_answer list
     \<Rightarrow> outcome \<times> db" where
  "answer_promises d now gen responseId index rejected [] =
     (if rejected then Rejected else Fulfilled, d)"
| "answer_promises d now gen responseId index rejected (a # as) =
     (case insertAnswerSchema_parse a responseId of
        None \<Rightarrow> (Thrown, d)
      | Some answerData \<Rightarrow>
          (case createAnswer d now (gen (1 + index)) answerData of
             None \<Rightarrow> answer_promises d now gen responseId (Suc index) True as
           | Some (_, d') \<Rightarrow> answer_promises d' now gen responseId (Suc index) rejected as))"

text \<open>
  POST /api/public/surveys/:shareToken/responses. \<open>gen 0\<close> is the id of the response,
  \<open>gen (1 + i)\<close> the id of the i-th answer. The 200 answer carries only a message.
\<close>

definition route_post_response ::
  "db \<Rightarrow> timestamp \<Rightarrow> (nat \<Rightarrow> string) \<Rightarrow> string \<Rightarrow> response_body \<Rightarrow> unit http \<times> db" where
  "route_post_response d now gen shareToken body =
     (case getSurveyByShareToken d shareToken of
        None \<Rightarrow> (NotFound, d)
      | Some survey \<Rightarrow>
          if s_status survey \<noteq> ''active'' then (NotFound, d)
          else
           (case insertResponseSchema_parse (s_id survey) (rb_respondentId body) of
              None \<Rightarrow> (BadRequest, d)
            | Some responseData \<Rightarrow>
                (case createResponse d now (gen 0) responseData of
                   None \<Rightarrow> (ServerError, d)
                 | Some (response, d1) \<Rightarrow>
                     (case rb_answers body of
                        None \<Rightarrow> (Json (), d1)
                      | Some as \<Rightarrow>
                          (case answer_promises d1 now gen (r_id response) 0 False as of
                             (Fulfilled, d2) \<Rightarrow> (Json (), d2)
                           | (Rejected, d2) \<Rightarrow> (ServerError, d2)
                           | (Thrown, d2) \<Rightarrow> (BadRequest, d2))))))"

section \<open>Owner routes that read or delete\<close>

text \<open>GET /api/surveys/:id and DELETE /api/surveys/:id, for the authenticated \<open>userId\<close>.\<close>

definition route_get_survey :: "db \<Rightarrow> string \<Rightarrow> string \<Rightarrow> (survey \<times> question list) http" where
  "route_get_survey d userId ident =
     (case getSurvey d ident of
        None \<Rightarrow> NotFound
      | Some survey \<Rightarrow>
          if s_createdBy survey \<noteq> userId then NotFound
          else Json (survey, getQuestionsBySurvey d (s_id survey)))"

definition route_delete_survey :: "db \<Rightarrow> string \<Rightarrow> string \<Rightarrow> unit http \<times> db" where
  "route_delete_survey d userId ident =
     (case getSurvey d ident of
        None \<Rightarrow> (NotFound, d)
      | Some survey \<Rightarrow>
          if s_createdBy survey \<noteq> userId then (NotFound, d)
          else (NoContent, deleteSurvey d ident))"

section \<open>Public fetch (GET /api/public/surveys/:shareToken)\<close>

definition route_get_public_survey :: "db \<Rightarrow> string \<Rightarrow> (survey \<times> question list) http" where
  "route_get_public_survey d shareToken =
     (case getSurveyByShareToken d shareToken of
        None \<Rightarrow> NotFound
      | Some survey \<Rightarrow>
          if s_status survey \<noteq> ''active'' then NotFound
          else Json (survey, getQuestionsBySurvey d (s_id survey)))"

section \<open>JavaScript objects used as dictionaries\<close>

text \<open>
  The client keeps its tallies and the form state in plain objects
  (\<^verbatim>\<open>Record<string, ...>\<close>). An object is modelled by the list of its own properties in
  the order they were created. A string is the list of its code units.

  \<^verbatim>\<open>Object.entries\<close> does not list the properties in creation order: the keys that
  are array indices (the decimal numeral, without leading zeros, of an integer below
  \<open>2\<^sup>3\<^sup>2 - 1\<close>) come first, in ascending numeric order, and the other keys follow in
  creation order.
\<close>

type_synonym 'v jsobject = "(string \<times> 'v) list"

definition digit_value :: "char \<Rightarrow> int option" where
  "digit_value c = map_of [(CHR ''0'', 0), (CHR ''1'', 1), (CHR ''2'', 2), (CHR ''3'', 3),
     (CHR ''4'', 4), (CHR ''5'', 5), (CHR ''6'', 6), (CHR ''7'', 7), (CHR ''8'', 8),
     (CHR ''9'', 9)] c"

definition digits_value :: "string \<Rightarrow> int" where
  "digits_value s = foldl (\<lambda>n c. 10 * n + or_default (digit_value c) 0) 0 s"

definition is_array_index :: "string \<Rightarrow> bool" where
  "is_array_index s =
     (s \<noteq> [] \<and> list_all (\<lambda>c. digit_value c \<noteq> None) s
      \<and> (s = ''0'' \<or> hd s \<noteq> CHR ''0'') \<and> digits_value s \<le> 4294967294)"

definition has_own :: "'v jsobject \<Rightarrow> string \<Rightarrow> bool" where
  "has_own ob k = (k \<in> set (map fst ob))"

text \<open>
  \<open>obj_define\<close> creates or overwrites an own property, as a computed key of an object
  literal does. \<open>obj_assign\<close> is the assignment \<^verbatim>\<open>ob[k] = v\<close> of a number or string to
  an object literal's object: the same, but for the key \<^verbatim>\<open>__proto__\<close>, which reaches
  the setter inherited from \<^verbatim>\<open>Object.prototype\<close>, and that setter ignores a value that
  is neither an object nor \<^verbatim>\<open>null\<close>.
\<close>

definition obj_define :: "'v jsobject \<Rightarrow> string \<Rightarrow> 'v \<Rightarrow> 'v jsobject" where
  "obj_define ob k v =
     (if has_own ob k then map (\<lambda>(k', v'). if k' = k then (k', v) else (k', v')) ob
      else ob @ [(k, v)])"

definition obj_assign :: "'v jsobject \<Rightarrow> string \<Rightarrow> 'v \<Rightarrow> 'v jsobject" where
  "obj_assign ob k v = (if k = ''__proto__'' then ob else obj_define ob k v)"

definition Object_entries :: "'v jsobject \<Rightarrow> (string \<times> 'v) list" where
  "Object_entries ob =
     sort_key (\<lambda>(k, v). digits_value k) (filter (\<lambda>(k, v). is_array_index k) ob)
     @ filter (\<lambda>(k, v). \<not> is_array_index k) ob"

text \<open>
  The names every object literal inherits from \<^verbatim>\<open>Object.prototype\<close>; reading one of
  them from an object that has no own property of that name gives a function or an
  object, which is truthy.
\<close>

definition object_prototype_keys :: "string list" where
  "object_prototype_keys =
     [''constructor'', ''hasOwnProperty'', ''isPrototypeOf'', ''propertyIsEnumerable'',
      ''toLocaleString'', ''toString'', ''valueOf'', ''__proto__'', ''__defineGetter__'',
      ''__defineSetter__'', ''__lookupGetter__'', ''__lookupSetter__'']"

text \<open>\<^verbatim>\<open>!responses[k]\<close> for an object of strings is \<open>\<not> prop_truthy responses k\<close>.\<close>

definition prop_truthy :: "string jsobject \<Rightarrow> string \<Rightarrow> bool" where
  "prop_truthy ob k =
     (case map_of ob k of
        Some v \<Rightarrow> v \<noteq> []
      | None \<Rightarrow> k \<in> set object_prototype_keys)"

text \<open>\<^verbatim>\<open>n.toString()\<close> of an integer, also the string of \<^verbatim>\<open>Date.now()\<close> in a template.\<close>

definition digit_char :: "int \<Rightarrow> char" where
  "digit_char n = ''0123456789'' ! nat (n mod 10)"

function toString :: "int \<Rightarrow> string" where
  "toString n =
     (if n < 0 then CHR ''-'' # toString (- n)
      else if n < 10 then [digit_char n]
      else toString (n div 10) @ [digit_char n])"
  by pat_completeness auto
termination
  by (relation "measure (\<lambda>n. if n < 0 then nat (- n) + 1 else nat n)") auto

declare toString.simps [simp del]

section \<open>The public form (client/src/pages/survey-public.tsx)\<close>

text \<open>
  \<^verbatim>\<open>handleInputChange\<close>: \<^verbatim>\<open>setResponses(prev => ({ ...prev, [questionId]: value }))\<close>.
\<close>

definition handleInputChange :: "string jsobject \<Rightarrow> string \<Rightarrow> string \<Rightarrow> string jsobject" where
  "handleInputChange prev questionId v = obj_define prev questionId v"

text \<open>
  \<^verbatim>\<open>handleSubmit\<close>, with the \<^verbatim>\<open>submitMutation\<close> it fires: the POST to
  \<^verbatim>\<open>/api/public/surveys/${shareToken}/responses\<close>. \<open>survey\<close> is what the page holds
  from its fetch (\<open>None\<close> while there is none), \<open>formResponses\<close> the form state
  \<^verbatim>\<open>responses\<close>. The result is the answer to the request, \<open>None\<close> when the
  handler returns without sending one.
\<close>

definition handleSubmit ::
  "db \<Rightarrow> timestamp \<Rightarrow> (nat \<Rightarrow> string) \<Rightarrow> string \<Rightarrow> (survey \<times> question list) option
     \<Rightarrow> string jsobject \<Rightarrow> unit http option \<times> db" where
  "handleSubmit d now gen shareToken survey formResponses =
     (case survey of
        None \<Rightarrow> (None, d)
      | Some (s, qs) \<Rightarrow>
          (let requiredQuestions = filter q_required qs;
               missingRequired = filter (\<lambda>q. \<not> prop_truthy formResponses (q_id q)) requiredQuestions
           in if length missingRequired > 0 then (None, d)
              else
               (let as = map (\<lambda>(questionId, v).
                               \<lparr> ra_questionId = JStr questionId, ra_value = JStr v \<rparr>)
                           (Object_entries formResponses);
                    (res, d') = route_post_response d now gen shareToken
                        \<lparr> rb_respondentId = JStr (''anonymous_'' @ toString now),
                          rb_answers = Some as \<rparr>
                in (Some res, d'))))"

section \<open>Analytics (SurveyAnalytics, getQuestionAnalytics)\<close>

text \<open>
  \<^verbatim>\<open>responseData\<close> is the body of GET /api/surveys/:id/responses; the function reads
  only its \<^verbatim>\<open>answers\<close>.
\<close>

record response_data =
  rd_responses :: "response list"
  rd_answers :: "answer list"

record chart_entry =
  ce_name :: string
  ce_value :: nat
  ce_fullName :: "string option"

datatype analytics = Null | Chart "chart_entry list" | Values "string list"

datatype js_error = TypeError

text \<open>
  The tallying loop of both branches:
  \<^verbatim>\<open>if (counts.hasOwnProperty(answer.value)) counts[answer.value]++\<close>. The call looks
  \<^verbatim>\<open>hasOwnProperty\<close> up on the object itself first: when a key of that name has been
  stored there, the call is a call of a number and throws.
\<close>

fun tally :: "nat jsobject \<Rightarrow> answer list \<Rightarrow> js_error + nat jsobject" where
  "tally counts [] = Inr counts"
| "tally counts (a # as) =
     (if has_own counts ''hasOwnProperty'' then Inl TypeError
      else if has_own counts (a_value a)
        then tally (obj_assign counts (a_value a) (or_default (map_of counts (a_value a)) 0 + 1)) as
        else tally counts as)"

definition getQuestionAnalytics :: "response_data option \<Rightarrow> question \<Rightarrow> js_error + analytics" where
  "getQuestionAnalytics responseData question =
     (case responseData of
        None \<Rightarrow> Inr Null
      | Some rd \<Rightarrow>
          (let questionAnswers = filter (\<lambda>a. a_questionId a = q_id question) (rd_answers rd)
           in if q_type question = ''multiple-choice'' then
                (let optionCounts = fold (\<lambda>option oc. obj_assign oc option 0)
                                      (or_default (q_options question) []) []
                 in case tally optionCounts questionAnswers of
                      Inl e \<Rightarrow> Inl e
                    | Inr oc \<Rightarrow>
                        Inr (Chart (map (\<lambda>(option, n).
                               \<lparr> ce_name = (if length option > 20 then take 20 option @ ''...''
                                             else option),
                                 ce_value = n, ce_fullName = Some option \<rparr>)
                             (Object_entries oc))))
              else if q_type question = ''rating'' then
                (let ratingCounts = fold (\<lambda>i rc. obj_assign rc (toString i) 0) [1..10] []
                 in case tally ratingCounts questionAnswers of
                      Inl e \<Rightarrow> Inl e
                    | Inr rc \<Rightarrow>
                        Inr (Chart (map (\<lambda>(rating, n).
                               \<lparr> ce_name = rating, ce_value = n, ce_fullName = None \<rparr>)
                             (Object_entries rc))))
              else Inr (Values (map a_value questionAnswers))))"

section \<open>Owner statistics (DatabaseStorage.getSurveyStats)\<close>

text \<open>
  The select builder of drizzle-orm, as far as \<^verbatim>\<open>getSurveyStats\<close> uses it. The builder
  keeps one condition in its configuration: \<^verbatim>\<open>.where(c)\<close> stores \<open>c\<close> there, so a
  second \<^verbatim>\<open>.where\<close> on the same builder replaces the condition of the first; the
  conditions are not conjoined (that takes \<^verbatim>\<open>and(c1, c2)\<close> within one call).
  \<^verbatim>\<open>select({ count: count() })\<close> gives one row with the number of rows selected.
\<close>

record 'r select_builder =
  sel_rows :: "'r list"
  sel_where :: "('r \<Rightarrow> bool) option"

definition select_from :: "'r list \<Rightarrow> 'r select_builder" where
  "select_from rows = \<lparr> sel_rows = rows, sel_where = None \<rparr>"

definition innerJoin ::
  "'a select_builder \<Rightarrow> 'b list \<Rightarrow> ('a \<Rightarrow> 'b \<Rightarrow> bool) \<Rightarrow> ('a \<times> 'b) select_builder" where
  "innerJoin q rows on =
     \<lparr> sel_rows = concat (map (\<lambda>a. map (Pair a) (filter (on a) rows)) (sel_rows q)),
       sel_where = None \<rparr>"

definition select_where :: "'r select_builder \<Rightarrow> ('r \<Rightarrow> bool) \<Rightarrow> 'r select_builder" where
  "select_where q cond = q\<lparr> sel_where := Some cond \<rparr>"

definition select_count :: "'r select_builder \<Rightarrow> nat" where
  "select_count q = length (filter (or_default (sel_where q) (\<lambda>_. True)) (sel_rows q))"

record survey_stats =
  totalSurveys :: nat
  totalResponses :: nat
  activeSurveys :: nat
  avgCompletionRate :: rat

definition getSurveyStats :: "db \<Rightarrow> string \<Rightarrow> survey_stats" where
  "getSurveyStats d userId =
     \<lparr> totalSurveys =
         select_count (select_where (select_from (surveys d)) (\<lambda>s. s_createdBy s = userId)),
       totalResponses =
         select_count (select_where
           (innerJoin (select_from (responses d)) (surveys d) (\<lambda>r s. r_surveyId r = s_id s))
           (\<lambda>(r, s). s_createdBy s = userId)),
       activeSurveys =
         select_count (select_where
           (select_where (select_from (surveys d)) (\<lambda>s. s_createdBy s = userId))
           (\<lambda>s. s_status s = ''active'')),
       avgCompletionRate = 157 / 2 \<rparr>"

section \<open>Notions used in the statements\<close>

text \<open>
  The database with the \<^verbatim>\<open>anonymous\<close> flag of every survey set as \<open>anon\<close> says, and
  nothing else changed: to state that a route does not depend on the flag.
\<close>

definition set_anonymous :: "(survey \<Rightarrow> bool) \<Rightarrow> db \<Rightarrow> db" where
  "set_anonymous anon d = d\<lparr>surveys := map (\<lambda>s. s\<lparr>s_anonymous := anon s\<rparr>) (surveys d)\<rparr>"

section \<open>A sample database\<close>

text \<open>
  Two users. The first owns an active survey with three questions and a draft survey;
  the second owns an active survey. Five responses, all to the first user's surveys,
  and four answers to the multiple-choice question.
\<close>

definition mk_survey :: "string \<Rightarrow> string \<Rightarrow> string \<Rightarrow> bool \<Rightarrow> string \<Rightarrow> survey" where
  "mk_survey ident owner status anonymous token =
     \<lparr> s_id = ident, s_title = ''Lunch'', s_description = None, s_createdBy = owner,
       s_status = status, s_anonymous = anonymous, s_multipleResponses = False,
       s_shareToken = token, s_createdAt = Some 10, s_updatedAt = Some 10 \<rparr>"

definition mk_question ::
  "string \<Rightarrow> string \<Rightarrow> string \<Rightarrow> bool \<Rightarrow> string list option \<Rightarrow> int \<Rightarrow> question" where
  "mk_question ident surveyId ty required opts ord =
     \<lparr> q_id = ident, q_surveyId = surveyId, q_text = ''What?'', q_type = ty,
       q_required = required, q_options = opts, q_order = ord, q_createdAt = Some 10 \<rparr>"

definition mk_response :: "string \<Rightarrow> string \<Rightarrow> response" where
  "mk_response ident surveyId =
     \<lparr> r_id = ident, r_surveyId = surveyId, r_respondentId = None, r_createdAt = Some 20 \<rparr>"

definition mk_answer :: "string \<Rightarrow> string \<Rightarrow> string \<Rightarrow> string \<Rightarrow> answer" where
  "mk_answer ident responseId questionId v =
     \<lparr> a_id = ident, a_responseId = responseId, a_questionId = questionId, a_value = v,
       a_createdAt = Some 20 \<rparr>"

definition blank_survey_values :: survey_values where
  "blank_survey_values =
     \<lparr> sv_id = None, sv_title = None, sv_description = None, sv_createdBy = None,
       sv_status = None, sv_anonymous = None, sv_multipleResponses = None,
       sv_shareToken = None, sv_createdAt = None, sv_updatedAt = None \<rparr>"

definition blank_question_values :: question_values where
  "blank_question_values =
     \<lparr> qv_id = None, qv_surveyId = None, qv_text = None, qv_type = None,
       qv_required = None, qv_options = None, qv_order = None, qv_createdAt = None \<rparr>"

text \<open>The values \<^verbatim>\<open>gen_random_uuid()\<close> returns in the examples: n0, n1, n2, ...\<close>

definition gen0 :: "nat \<Rightarrow> string" where
  "gen0 k = CHR ''n'' # toString (int k)"

definition db0 :: db where
  "db0 =
     \<lparr> users = [\<lparr> u_id = ''u1'', u_email = None \<rparr>, \<lparr> u_id = ''u2'', u_email = None \<rparr>],
       surveys = [mk_survey ''s1'' ''u1'' ''active'' True ''t1'',
                  mk_survey ''s2'' ''u1'' ''draft'' True ''t2'',
                  mk_survey ''s3'' ''u2'' ''active'' False ''t3''],
       questions = [mk_question ''q1'' ''s1'' ''multiple-choice'' True (Some [''A'', ''B'']) 0,
                    mk_question ''q2'' ''s1'' ''rating'' False None 1,
                    mk_question ''q3'' ''s1'' ''text'' False None 2],
       responses = [mk_response ''r1'' ''s1'', mk_response ''r2'' ''s1'',
                    mk_response ''r3'' ''s1'', mk_response ''r4'' ''s1'',
                    mk_response ''r5'' ''s2''],
       answers = [mk_answer ''a1'' ''r1'' ''q1'' ''A'', mk_answer ''a2'' ''r2'' ''q1'' ''A'',
                  mk_answer ''a3'' ''r3'' ''q1'' ''B'', mk_answer ''a4'' ''r4'' ''q1'' ''C''] \<rparr>"

text \<open>A body for POST /api/surveys: a title and three text questions.\<close>

definition mk_raw_question :: "string \<Rightarrow> raw_question" where
  "mk_raw_question txt =
     \<lparr> rq_text = JStr txt, rq_type = JStr ''text'', rq_required = JUndefined,
       rq_options = None \<rparr>"

definition body3 :: survey_body where
  "body3 =
     \<lparr> sb_title = JStr ''Tea'', sb_description = JUndefined, sb_status = JUndefined,
       sb_anonymous = JUndefined, sb_multipleResponses = JUndefined,
       sb_questions = Some [mk_raw_question ''One'', mk_raw_question ''Two'',
                            mk_raw_question ''Three''] \<rparr>"

text \<open>What that request creates in the sample database at time 50.\<close>

definition tea_survey :: survey where
  "tea_survey =
     \<lparr> s_id = ''n0'', s_title = ''Tea'', s_description = None, s_createdBy = ''u1'',
       s_status = ''draft'', s_anonymous = True, s_multipleResponses = False,
       s_shareToken = ''n1'', s_createdAt = Some 50, s_updatedAt = Some 50 \<rparr>"

definition tea_question :: "string \<Rightarrow> string \<Rightarrow> int \<Rightarrow> question" where
  "tea_question ident txt ord =
     \<lparr> q_id = ident, q_surveyId = ''n0'', q_text = txt, q_type = ''text'',
       q_required = False, q_options = None, q_order = ord, q_createdAt = Some 50 \<rparr>"

definition db_tea :: db where
  "db_tea =
     db0\<lparr> surveys := surveys db0 @ [tea_survey],
          questions := questions db0 @ [tea_question ''n2'' ''One'' 0,
            tea_question ''n3'' ''Two'' 1, tea_question ''n4'' ''Three'' 2] \<rparr>"

section \<open>Theorems\<close>

lemma find_unique:
  assumes "distinct (map f xs)" and "x \<in> set xs" and "f x = k"
  shows "find (\<lambda>y. f y = k) xs = Some x"
  using assms
proof (induction xs)
  case Nil
  then show ?case by simp
next
  case (Cons y ys)
  show ?case
  proof (cases "f y = k")
    case True
    with Cons.prems have "y = x" by (auto simp: image_iff)
    with True show ?thesis by simp
  next
    case False
    with Cons show ?thesis by auto
  qed
qed

lemma find_Some_mem: "find P xs = Some x \<Longrightarrow> x \<in> set xs \<and> P x"
  by (induction xs) (auto split: if_splits)

text \<open>
  Claim C6. Under the schema's unique constraint on \<^verbatim>\<open>share_token\<close>, the public
  fetch answers with a survey exactly when a survey with that token exists and its
  status is \<^verbatim>\<open>active\<close>; in every other case it answers 404. A survey it returns is
  that survey, so one whose status is draft or closed is never returned, and it comes
  with exactly its own questions, sorted by \<^verbatim>\<open>order\<close> ascending.
\<close>

theorem public_fetch_active_only:
  assumes "unique_ok d"
  shows "((\<exists>s qs. route_get_public_survey d tok = Json (s, qs)) \<longleftrightarrow>
            (\<exists>s \<in> set (surveys d). s_shareToken s = tok \<and> s_status s = ''active''))
       \<and> ((\<nexists>s. s \<in> set (surveys d) \<and> s_shareToken s = tok \<and> s_status s = ''active'')
            \<longrightarrow> route_get_public_survey d tok = NotFound)
       \<and> (\<forall>s qs. route_get_public_survey d tok = Json (s, qs) \<longrightarrow>
            s \<in> set (surveys d) \<and> s_shareToken s = tok \<and> s_status s = ''active''
            \<and> sorted (map q_order qs)
            \<and> mset qs = mset (filter (\<lambda>q. q_surveyId q = s_id s) (questions d)))"
proof -
  have ok: "route_get_public_survey d tok = Json (s, getQuestionsBySurvey d (s_id s))"
    if "s \<in> set (surveys d)" "s_shareToken s = tok" "s_status s = ''active''" for s
  proof -
    from assms that have "getSurveyByShareToken d tok = Some s"
      unfolding unique_ok_def getSurveyByShareToken_def by (intro find_unique) auto
    with that show ?thesis by (simp add: route_get_public_survey_def)
  qed
  have conv: "s \<in> set (surveys d) \<and> s_shareToken s = tok \<and> s_status s = ''active''
      \<and> qs = getQuestionsBySurvey d (s_id s)"
    if "route_get_public_survey d tok = Json (s, qs)" for s qs
    using that find_Some_mem[of "\<lambda>s. s_shareToken s = tok" "surveys d"]
    by (auto simp: route_get_public_survey_def getSurveyByShareToken_def
        split: option.splits if_splits)
  have nf: "route_get_public_survey d tok = NotFound"
    if "\<nexists>s. s \<in> set (surveys d) \<and> s_shareToken s = tok \<and> s_status s = ''active''"
    using that find_Some_mem[of "\<lambda>s. s_shareToken s = tok" "surveys d"]
    by (auto simp: route_get_public_survey_def getSurveyByShareToken_def
        split: option.splits)
  have "(\<exists>s qs. route_get_public_survey d tok = Json (s, qs)) \<longleftrightarrow>
        (\<exists>s \<in> set (surveys d). s_shareToken s = tok \<and> s_status s = ''active'')"
    using ok conv by blast
  moreover have "\<forall>s qs. route_get_public_survey d tok = Json (s, qs) \<longrightarrow>
            s \<in> set (surveys d) \<and> s_shareToken s = tok \<and> s_status s = ''active''
            \<and> sorted (map q_order qs)
            \<and> mset qs = mset (filter (\<lambda>q. q_surveyId q = s_id s) (questions d))"
    using conv by (auto simp: getQuestionsBySurvey_def)
  ultimately show ?thesis using nf by blast
qed

lemma db0_constraints: "constraints_ok db0"
  by (simp add: constraints_ok_def pk_ok_def unique_ok_def fk_ok_def db0_def
      mk_survey_def mk_question_def mk_response_def mk_answer_def)

theorem public_fetch_active_only_witness:
  "unique_ok db0
   \<and> (\<exists>s qs. route_get_public_survey db0 ''t1'' = Json (s, qs) \<and> s_id s = ''s1''
         \<and> map q_id qs = [''q1'', ''q2'', ''q3''])
   \<and> route_get_public_survey db0 ''t2'' = NotFound
   \<and> route_get_public_survey db0 ''nope'' = NotFound"
proof -
  have u: "unique_ok db0"
    using db0_constraints by (simp add: constraints_ok_def)
  have "\<nexists>s. s \<in> set (surveys db0) \<and> s_shareToken s = ''t2'' \<and> s_status s = ''active''"
    by (auto simp: db0_def mk_survey_def)
  with public_fetch_active_only[OF u, of "''t2''"]
  have a: "route_get_public_survey db0 ''t2'' = NotFound" by blast
  have "\<nexists>s. s \<in> set (surveys db0) \<and> s_shareToken s = ''nope'' \<and> s_status s = ''active''"
    by (auto simp: db0_def mk_survey_def)
  with public_fetch_active_only[OF u, of "''nope''"]
  have b: "route_get_public_survey db0 ''nope'' = NotFound" by blast
  have c: "\<exists>s qs. route_get_public_survey db0 ''t1'' = Json (s, qs) \<and> s_id s = ''s1''
         \<and> map q_id qs = [''q1'', ''q2'', ''q3'']"
    by (simp add: route_get_public_survey_def getSurveyByShareToken_def
        getQuestionsBySurvey_def db0_def mk_survey_def mk_question_def)
  from u a b c show ?thesis by blast
qed

lemmas db0_defs = db0_def mk_survey_def mk_question_def mk_response_def mk_answer_def

lemma find_None_iff2: "find P xs = None \<longleftrightarrow> (\<forall>x \<in> set xs. \<not> P x)"
  by (induction xs) auto

lemma distinct_map_eq:
  "distinct (map f xs) \<Longrightarrow> x \<in> set xs \<Longrightarrow> y \<in> set xs \<Longrightarrow> f x = f y \<Longrightarrow> x = y"
  by (meson distinct_map inj_on_def)

text \<open>
  Claim C7. \<^verbatim>\<open>deleteSurvey\<close> on an existing survey (as the DELETE route calls it for
  the owner) leaves no question and no response of that survey, and no answer that
  belonged to one of its responses or to one of its questions. Afterwards the survey
  is found neither by its id nor by its share token, so the owner fetch (for any user)
  and the public fetch both answer 404.
\<close>

theorem delete_survey_cascade:
  assumes "unique_ok d" and g: "getSurvey d ident = Some s"
  shows "route_delete_survey d (s_createdBy s) ident = (NoContent, deleteSurvey d ident)
     \<and> (\<forall>q \<in> set (questions (deleteSurvey d ident)). q_surveyId q \<noteq> ident)
     \<and> (\<forall>r \<in> set (responses (deleteSurvey d ident)). r_surveyId r \<noteq> ident)
     \<and> (\<forall>a \<in> set (answers (deleteSurvey d ident)).
           (\<forall>r \<in> set (responses d). r_surveyId r = ident \<longrightarrow> a_responseId a \<noteq> r_id r)
         \<and> (\<forall>q \<in> set (questions d). q_surveyId q = ident \<longrightarrow> a_questionId a \<noteq> q_id q))
     \<and> getSurvey (deleteSurvey d ident) ident = None
     \<and> getSurveyByShareToken (deleteSurvey d ident) (s_shareToken s) = None
     \<and> route_get_survey (deleteSurvey d ident) userId ident = NotFound
     \<and> route_get_public_survey (deleteSurvey d ident) (s_shareToken s) = NotFound"
proof -
  from g have s: "s \<in> set (surveys d)" "s_id s = ident"
    using find_Some_mem[of "\<lambda>s. s_id s = ident" "surveys d" s] by (auto simp: getSurvey_def)
  have r: "route_delete_survey d (s_createdBy s) ident = (NoContent, deleteSurvey d ident)"
    using g by (simp add: route_delete_survey_def)
  have q: "\<forall>q \<in> set (questions (deleteSurvey d ident)). q_surveyId q \<noteq> ident"
    by (simp add: deleteSurvey_def Let_def)
  have rs: "\<forall>r \<in> set (responses (deleteSurvey d ident)). r_surveyId r \<noteq> ident"
    by (simp add: deleteSurvey_def Let_def)
  have a: "\<forall>a \<in> set (answers (deleteSurvey d ident)).
           (\<forall>r \<in> set (responses d). r_surveyId r = ident \<longrightarrow> a_responseId a \<noteq> r_id r)
         \<and> (\<forall>q \<in> set (questions d). q_surveyId q = ident \<longrightarrow> a_questionId a \<noteq> q_id q)"
    by (auto simp: deleteSurvey_def Let_def)
  have g1: "getSurvey (deleteSurvey d ident) ident = None"
    by (simp add: getSurvey_def deleteSurvey_def Let_def find_None_iff2)
  have "s' \<in> set (surveys d) \<Longrightarrow> s_shareToken s' = s_shareToken s \<Longrightarrow> s_id s' = ident" for s'
    using distinct_map_eq[of s_shareToken "surveys d" s' s] assms(1) s by (simp add: unique_ok_def)
  then have g2: "getSurveyByShareToken (deleteSurvey d ident) (s_shareToken s) = None"
    by (auto simp: getSurveyByShareToken_def deleteSurvey_def Let_def find_None_iff2)
  from g1 have g3: "route_get_survey (deleteSurvey d ident) userId ident = NotFound"
    by (simp add: route_get_survey_def)
  from g2 have g4: "route_get_public_survey (deleteSurvey d ident) (s_shareToken s) = NotFound"
    by (simp add: route_get_public_survey_def)
  from r q rs a g1 g2 g3 g4 show ?thesis by blast
qed

theorem delete_survey_cascade_witness:
  "unique_ok db0
   \<and> getSurvey db0 ''s1'' = Some (mk_survey ''s1'' ''u1'' ''active'' True ''t1'')
   \<and> route_delete_survey db0 ''u1'' ''s1'' = (NoContent, deleteSurvey db0 ''s1'')
   \<and> questions (deleteSurvey db0 ''s1'') = []
   \<and> map r_id (responses (deleteSurvey db0 ''s1'')) = [''r5'']
   \<and> answers (deleteSurvey db0 ''s1'') = []
   \<and> route_get_survey (deleteSurvey db0 ''s1'') ''u1'' ''s1'' = NotFound
   \<and> route_get_public_survey (deleteSurvey db0 ''s1'') ''t1'' = NotFound"
proof -
  have u: "unique_ok db0"
    using db0_constraints by (simp add: constraints_ok_def)
  have g: "getSurvey db0 ''s1'' = Some (mk_survey ''s1'' ''u1'' ''active'' True ''t1'')"
    by (simp add: getSurvey_def db0_def mk_survey_def)
  have t: "s_shareToken (mk_survey ''s1'' ''u1'' ''active'' True ''t1'') = ''t1''"
      "s_createdBy (mk_survey ''s1'' ''u1'' ''active'' True ''t1'') = ''u1''"
    by (simp_all add: mk_survey_def)
  note th = delete_survey_cascade[OF u g, of "''u1''", unfolded t]
  have q: "questions (deleteSurvey db0 ''s1'') = []"
    by (simp add: deleteSurvey_def Let_def db0_defs)
  have r: "map r_id (responses (deleteSurvey db0 ''s1'')) = [''r5'']"
    by (simp add: deleteSurvey_def Let_def db0_defs)
  have a: "answers (deleteSurvey db0 ''s1'') = []"
    by (simp add: deleteSurvey_def Let_def db0_defs)
  from u g th q r a show ?thesis by blast
qed

lemma find_Some_filter: "find P xs = Some x \<Longrightarrow> \<exists>ys. filter P xs = x # ys"
  by (induction xs) (auto split: if_splits)

lemma updateSurvey_row:
  assumes "updateSurvey d now ident u = Some (Some s', d')" and "getSurvey d ident = Some s"
  shows "s' = survey_set (u\<lparr>sv_updatedAt := Some (Some now)\<rparr>) s"
    and "surveys d' = map (\<lambda>x. if s_id x = ident
            then survey_set (u\<lparr>sv_updatedAt := Some (Some now)\<rparr>) x else x) (surveys d)"
proof -
  from assms(2) obtain ys where f: "filter (\<lambda>s. s_id s = ident) (surveys d) = s # ys"
    using find_Some_filter[of "\<lambda>s. s_id s = ident" "surveys d" s] by (auto simp: getSurvey_def)
  from assms(1) f show "s' = survey_set (u\<lparr>sv_updatedAt := Some (Some now)\<rparr>) s"
    by (auto simp: updateSurvey_def Let_def commit_def split: if_splits)
  from assms(1) show "surveys d' = map (\<lambda>x. if s_id x = ident
            then survey_set (u\<lparr>sv_updatedAt := Some (Some now)\<rparr>) x else x) (surveys d)"
    by (auto simp: updateSurvey_def Let_def commit_def split: if_splits)
qed

lemma updateQuestion_row:
  assumes "updateQuestion d now ident u = Some (Some q', d')"
    and "find (\<lambda>q. q_id q = ident) (questions d) = Some q"
  shows "q' = question_set u q"
    and "questions d' = map (\<lambda>x. if q_id x = ident then question_set u x else x) (questions d)"
proof -
  from assms(2) obtain ys where f: "filter (\<lambda>q. q_id q = ident) (questions d) = q # ys"
    using find_Some_filter[of "\<lambda>q. q_id q = ident" "questions d" q] by auto
  from assms(1) f show "q' = question_set u q"
    by (auto simp: updateQuestion_def Let_def commit_def split: if_splits)
  from assms(1) show
    "questions d' = map (\<lambda>x. if q_id x = ident then question_set u x else x) (questions d)"
    by (auto simp: updateQuestion_def Let_def commit_def split: if_splits)
qed

text \<open>
  Claim C8, as the code has it. When \<^verbatim>\<open>updateSurvey\<close> updates the survey with the
  given id, the row it returns is stored, every column takes the payload's value when
  the payload has one and keeps its previous value otherwise, and \<^verbatim>\<open>updatedAt\<close> is
  the time of the call (whatever the payload says). When \<^verbatim>\<open>updateQuestion\<close> updates
  a question, the row it returns is stored and every column, \<^verbatim>\<open>createdAt\<close> included,
  takes the payload's value when there is one and keeps its previous value otherwise;
  a question has no \<^verbatim>\<open>updatedAt\<close> to refresh.
\<close>

theorem update_merge_semantics:
  "(updateSurvey d now ident u = Some (Some s', d') \<and> getSurvey d ident = Some s \<longrightarrow>
       s_updatedAt s' = Some now
     \<and> s' \<in> set (surveys d')
     \<and> s_id s' = (case sv_id u of None \<Rightarrow> s_id s | Some x \<Rightarrow> x)
     \<and> s_title s' = (case sv_title u of None \<Rightarrow> s_title s | Some x \<Rightarrow> x)
     \<and> s_description s' = (case sv_description u of None \<Rightarrow> s_description s | Some x \<Rightarrow> x)
     \<and> s_createdBy s' = (case sv_createdBy u of None \<Rightarrow> s_createdBy s | Some x \<Rightarrow> x)
     \<and> s_status s' = (case sv_status u of None \<Rightarrow> s_status s | Some x \<Rightarrow> x)
     \<and> s_anonymous s' = (case sv_anonymous u of None \<Rightarrow> s_anonymous s | Some x \<Rightarrow> x)
     \<and> s_multipleResponses s' =
         (case sv_multipleResponses u of None \<Rightarrow> s_multipleResponses s | Some x \<Rightarrow> x)
     \<and> s_shareToken s' = (case sv_shareToken u of None \<Rightarrow> s_shareToken s | Some x \<Rightarrow> x)
     \<and> s_createdAt s' = (case sv_createdAt u of None \<Rightarrow> s_createdAt s | Some x \<Rightarrow> x))
   \<and> (updateQuestion e now qident qu = Some (Some q', e')
       \<and> find (\<lambda>q. q_id q = qident) (questions e) = Some q \<longrightarrow>
       q' \<in> set (questions e')
     \<and> q_id q' = (case qv_id qu of None \<Rightarrow> q_id q | Some x \<Rightarrow> x)
     \<and> q_surveyId q' = (case qv_surveyId qu of None \<Rightarrow> q_surveyId q | Some x \<Rightarrow> x)
     \<and> q_text q' = (case qv_text qu of None \<Rightarrow> q_text q | Some x \<Rightarrow> x)
     \<and> q_type q' = (case qv_type qu of None \<Rightarrow> q_type q | Some x \<Rightarrow> x)
     \<and> q_required q' = (case qv_required qu of None \<Rightarrow> q_required q | Some x \<Rightarrow> x)
     \<and> q_options q' = (case qv_options qu of None \<Rightarrow> q_options q | Some x \<Rightarrow> x)
     \<and> q_order q' = (case qv_order qu of None \<Rightarrow> q_order q | Some x \<Rightarrow> x)
     \<and> q_createdAt q' = (case qv_createdAt qu of None \<Rightarrow> q_createdAt q | Some x \<Rightarrow> x))"
proof (intro conjI impI)
  assume a: "updateSurvey d now ident u = Some (Some s', d') \<and> getSurvey d ident = Some s"
  then have s': "s' = survey_set (u\<lparr>sv_updatedAt := Some (Some now)\<rparr>) s"
    and d': "surveys d' = map (\<lambda>x. if s_id x = ident
            then survey_set (u\<lparr>sv_updatedAt := Some (Some now)\<rparr>) x else x) (surveys d)"
    using updateSurvey_row by blast+
  from a have m: "s \<in> set (surveys d)" "s_id s = ident"
    using find_Some_mem[of "\<lambda>s. s_id s = ident" "surveys d" s] by (auto simp: getSurvey_def)
  show "s_updatedAt s' = Some now" by (simp add: s' survey_set_def or_default_def)
  show "s' \<in> set (surveys d')" using m by (auto simp: s' d' image_iff intro!: bexI[of _ s])
  show "s_id s' = (case sv_id u of None \<Rightarrow> s_id s | Some x \<Rightarrow> x)"
    by (simp add: s' survey_set_def or_default_def)
  show "s_title s' = (case sv_title u of None \<Rightarrow> s_title s | Some x \<Rightarrow> x)"
    by (simp add: s' survey_set_def or_default_def)
  show "s_description s' = (case sv_description u of None \<Rightarrow> s_description s | Some x \<Rightarrow> x)"
    by (simp add: s' survey_set_def or_default_def)
  show "s_createdBy s' = (case sv_createdBy u of None \<Rightarrow> s_createdBy s | Some x \<Rightarrow> x)"
    by (simp add: s' survey_set_def or_default_def)
  show "s_status s' = (case sv_status u of None \<Rightarrow> s_status s | Some x \<Rightarrow> x)"
    by (simp add: s' survey_set_def or_default_def)
  show "s_anonymous s' = (case sv_anonymous u of None \<Rightarrow> s_anonymous s | Some x \<Rightarrow> x)"
    by (simp add: s' survey_set_def or_default_def)
  show "s_multipleResponses s' =
         (case sv_multipleResponses u of None \<Rightarrow> s_multipleResponses s | Some x \<Rightarrow> x)"
    by (simp add: s' survey_set_def or_default_def)
  show "s_shareToken s' = (case sv_shareToken u of None \<Rightarrow> s_shareToken s | Some x \<Rightarrow> x)"
    by (simp add: s' survey_set_def or_default_def)
  show "s_createdAt s' = (case sv_createdAt u of None \<Rightarrow> s_createdAt s | Some x \<Rightarrow> x)"
    by (simp add: s' survey_set_def or_default_def)
next
  assume a: "updateQuestion e now qident qu = Some (Some q', e')
       \<and> find (\<lambda>q. q_id q = qident) (questions e) = Some q"
  then have q': "q' = question_set qu q"
    and e': "questions e' =
       map (\<lambda>x. if q_id x = qident then question_set qu x else x) (questions e)"
    using updateQuestion_row by blast+
  from a have m: "q \<in> set (questions e)" "q_id q = qident"
    using find_Some_mem[of "\<lambda>q. q_id q = qident" "questions e" q] by auto
  show "q' \<in> set (questions e')" using m by (auto simp: q' e' image_iff intro!: bexI[of _ q])
  show "q_id q' = (case qv_id qu of None \<Rightarrow> q_id q | Some x \<Rightarrow> x)"
    by (simp add: q' question_set_def or_default_def)
  show "q_surveyId q' = (case qv_surveyId qu of None \<Rightarrow> q_surveyId q | Some x \<Rightarrow> x)"
    by (simp add: q' question_set_def or_default_def)
  show "q_text q' = (case qv_text qu of None \<Rightarrow> q_text q | Some x \<Rightarrow> x)"
    by (simp add: q' question_set_def or_default_def)
  show "q_type q' = (case qv_type qu of None \<Rightarrow> q_type q | Some x \<Rightarrow> x)"
    by (simp add: q' question_set_def or_default_def)
  show "q_required q' = (case qv_required qu of None \<Rightarrow> q_required q | Some x \<Rightarrow> x)"
    by (simp add: q' question_set_def or_default_def)
  show "q_options q' = (case qv_options qu of None \<Rightarrow> q_options q | Some x \<Rightarrow> x)"
    by (simp add: q' question_set_def or_default_def)
  show "q_order q' = (case qv_order qu of None \<Rightarrow> q_order q | Some x \<Rightarrow> x)"
    by (simp add: q' question_set_def or_default_def)
  show "q_createdAt q' = (case qv_createdAt qu of None \<Rightarrow> q_createdAt q | Some x \<Rightarrow> x)"
    by (simp add: q' question_set_def or_default_def)
qed

lemma updateSurvey_db0:
  "updateSurvey db0 99 ''s2'' (blank_survey_values\<lparr>sv_title := Some ''Dinner''\<rparr>) =
     Some (Some ((mk_survey ''s2'' ''u1'' ''draft'' True ''t2'')
                   \<lparr>s_title := ''Dinner'', s_updatedAt := Some 99\<rparr>),
           db0\<lparr>surveys := (surveys db0)[1 := (mk_survey ''s2'' ''u1'' ''draft'' True ''t2'')
                   \<lparr>s_title := ''Dinner'', s_updatedAt := Some 99\<rparr>]\<rparr>)"
  by (simp add: updateSurvey_def Let_def commit_def constraints_ok_def pk_ok_def unique_ok_def
      fk_ok_def survey_set_def or_default_def blank_survey_values_def db0_defs)

lemma updateQuestion_db0:
  "updateQuestion db0 99 ''q2'' (blank_question_values\<lparr>qv_text := Some ''Why?''\<rparr>) =
     Some (Some ((mk_question ''q2'' ''s1'' ''rating'' False None 1)\<lparr>q_text := ''Why?''\<rparr>),
           db0\<lparr>questions := (questions db0)[1 :=
                   (mk_question ''q2'' ''s1'' ''rating'' False None 1)\<lparr>q_text := ''Why?''\<rparr>]\<rparr>)"
  by (simp add: updateQuestion_def Let_def commit_def constraints_ok_def pk_ok_def unique_ok_def
      fk_ok_def question_set_def or_default_def blank_question_values_def
      no_question_values_def int4_ok_def db0_defs)

theorem update_merge_semantics_witness:
  "updateSurvey db0 99 ''s2'' (blank_survey_values\<lparr>sv_title := Some ''Dinner''\<rparr>) =
     Some (Some ((mk_survey ''s2'' ''u1'' ''draft'' True ''t2'')
                   \<lparr>s_title := ''Dinner'', s_updatedAt := Some 99\<rparr>),
           db0\<lparr>surveys := (surveys db0)[1 := (mk_survey ''s2'' ''u1'' ''draft'' True ''t2'')
                   \<lparr>s_title := ''Dinner'', s_updatedAt := Some 99\<rparr>]\<rparr>)
   \<and> getSurvey db0 ''s2'' = Some (mk_survey ''s2'' ''u1'' ''draft'' True ''t2'')
   \<and> s_updatedAt ((mk_survey ''s2'' ''u1'' ''draft'' True ''t2'')
                   \<lparr>s_title := ''Dinner'', s_updatedAt := Some 99\<rparr>) = Some 99
   \<and> s_status ((mk_survey ''s2'' ''u1'' ''draft'' True ''t2'')
                   \<lparr>s_title := ''Dinner'', s_updatedAt := Some 99\<rparr>) = ''draft''
   \<and> updateQuestion db0 99 ''q2'' (blank_question_values\<lparr>qv_text := Some ''Why?''\<rparr>) =
     Some (Some ((mk_question ''q2'' ''s1'' ''rating'' False None 1)\<lparr>q_text := ''Why?''\<rparr>),
           db0\<lparr>questions := (questions db0)[1 :=
                   (mk_question ''q2'' ''s1'' ''rating'' False None 1)\<lparr>q_text := ''Why?''\<rparr>]\<rparr>)
   \<and> find (\<lambda>q. q_id q = ''q2'') (questions db0) = Some (mk_question ''q2'' ''s1'' ''rating'' False None 1)
   \<and> q_order ((mk_question ''q2'' ''s1'' ''rating'' False None 1)\<lparr>q_text := ''Why?''\<rparr>) = 1
   \<and> q_createdAt ((mk_question ''q2'' ''s1'' ''rating'' False None 1)\<lparr>q_text := ''Why?''\<rparr>)
       = Some 10"
proof -
  let ?S = "(mk_survey ''s2'' ''u1'' ''draft'' True ''t2'')
              \<lparr>s_title := ''Dinner'', s_updatedAt := Some 99\<rparr>"
  let ?Q = "(mk_question ''q2'' ''s1'' ''rating'' False None 1)\<lparr>q_text := ''Why?''\<rparr>"
  have g: "getSurvey db0 ''s2'' = Some (mk_survey ''s2'' ''u1'' ''draft'' True ''t2'')"
    by (simp add: getSurvey_def db0_defs)
  have f: "find (\<lambda>q. q_id q = ''q2'') (questions db0)
      = Some (mk_question ''q2'' ''s1'' ''rating'' False None 1)"
    by (simp add: db0_defs)
  note th = update_merge_semantics[where d = db0 and now = 99 and ident = "''s2''"
      and u = "blank_survey_values\<lparr>sv_title := Some ''Dinner''\<rparr>"
      and s = "mk_survey ''s2'' ''u1'' ''draft'' True ''t2''" and s' = ?S
      and d' = "db0\<lparr>surveys := (surveys db0)[1 := ?S]\<rparr>"
      and e = db0 and qident = "''q2''"
      and qu = "blank_question_values\<lparr>qv_text := Some ''Why?''\<rparr>"
      and q = "mk_question ''q2'' ''s1'' ''rating'' False None 1" and q' = ?Q
      and e' = "db0\<lparr>questions := (questions db0)[1 := ?Q]\<rparr>"]
  from th updateSurvey_db0 g
  have a: "s_updatedAt ?S = Some 99 \<and> s_status ?S = ''draft''"
    by (simp add: blank_survey_values_def mk_survey_def)
  from th updateQuestion_db0 f
  have c: "q_order ?Q = 1 \<and> q_createdAt ?Q = Some 10"
    by (simp add: blank_question_values_def mk_question_def)
  from updateSurvey_db0 g a updateQuestion_db0 f c show ?thesis by blast
qed

text \<open>
  Claim C8 as stated fails for questions: an \<^verbatim>\<open>updateQuestion\<close> at time 99 that
  changes the text returns and stores the old row with the new text and nothing else
  changed. Its one timestamp still reads 10, the time of creation, and the rest of
  the database is as before.
\<close>

theorem updateQuestion_no_refresh_counterexample:
  "updateQuestion db0 99 ''q2'' (blank_question_values\<lparr>qv_text := Some ''Why?''\<rparr>) =
     Some (Some \<lparr> q_id = ''q2'', q_surveyId = ''s1'', q_text = ''Why?'', q_type = ''rating'',
                  q_required = False, q_options = None, q_order = 1, q_createdAt = Some 10 \<rparr>,
           db0\<lparr>questions := (questions db0)[1 :=
              \<lparr> q_id = ''q2'', q_surveyId = ''s1'', q_text = ''Why?'', q_type = ''rating'',
                q_required = False, q_options = None, q_order = 1, q_createdAt = Some 10 \<rparr>]\<rparr>)"
  by (simp add: updateQuestion_def Let_def commit_def constraints_ok_def pk_ok_def unique_ok_def
      fk_ok_def question_set_def or_default_def blank_question_values_def
      no_question_values_def int4_ok_def db0_defs)

lemma getSurveyStats_totalSurveys:
  "totalSurveys (getSurveyStats d userId)
     = length (filter (\<lambda>s. s_createdBy s = userId) (surveys d))"
  by (simp add: getSurveyStats_def select_count_def select_where_def select_from_def
      or_default_def)

lemma getSurveyStats_activeSurveys:
  "activeSurveys (getSurveyStats d userId)
     = length (filter (\<lambda>s. s_status s = ''active'') (surveys d))"
  by (simp add: getSurveyStats_def select_count_def select_where_def select_from_def
      or_default_def)

lemma length_filter_key:
  "distinct (map f xs) \<Longrightarrow>
     length (filter (\<lambda>x. k = f x \<and> P x) xs) = (if \<exists>x \<in> set xs. k = f x \<and> P x then 1 else 0)"
proof (induction xs)
  case Nil
  show ?case by simp
next
  case (Cons y ys)
  then have ih: "length (filter (\<lambda>x. k = f x \<and> P x) ys)
      = (if \<exists>x \<in> set ys. k = f x \<and> P x then 1 else 0)" by simp
  from Cons.prems have "f y \<notin> f ` set ys" by simp
  then have "\<forall>x \<in> set ys. f x \<noteq> f y" by (metis imageI)
  then have ne: "\<forall>x \<in> set ys. f y \<noteq> f x" by metis
  show ?case
  proof (cases "k = f y")
    case True
    with ne have "filter (\<lambda>x. k = f x \<and> P x) ys = []"
      by (simp add: filter_empty_conv)
    with True ne show ?thesis by auto
  next
    case False
    with ih show ?thesis by simp
  qed
qed

lemma length_filter_concat:
  "length (filter P (concat xss)) = sum_list (map (\<lambda>xs. length (filter P xs)) xss)"
  by (induction xss) auto

lemma length_filter_sum: "length (filter Q xs) = sum_list (map (\<lambda>x. if Q x then 1 else 0) xs)"
  by (induction xs) auto

lemma getSurveyStats_totalResponses:
  assumes "pk_ok d"
  shows "totalResponses (getSurveyStats d userId)
     = length (filter (\<lambda>r. \<exists>s \<in> set (surveys d). r_surveyId r = s_id s \<and> s_createdBy s = userId)
         (responses d))"
proof -
  from assms have dis: "distinct (map s_id (surveys d))" by (simp add: pk_ok_def)
  have "totalResponses (getSurveyStats d userId)
      = sum_list (map (\<lambda>r. length (filter (\<lambda>s. r_surveyId r = s_id s \<and> s_createdBy s = userId)
            (surveys d))) (responses d))"
    by (simp add: getSurveyStats_def select_count_def select_where_def select_from_def
        innerJoin_def or_default_def length_filter_concat o_def filter_map conj_commute)
  also have "\<dots> = sum_list (map (\<lambda>r. if \<exists>s \<in> set (surveys d).
        r_surveyId r = s_id s \<and> s_createdBy s = userId then 1 else 0) (responses d))"
    by (simp only: length_filter_key[OF dis])
  also have "\<dots> = length (filter (\<lambda>r. \<exists>s \<in> set (surveys d).
        r_surveyId r = s_id s \<and> s_createdBy s = userId) (responses d))"
    by (simp only: length_filter_sum)
  finally show ?thesis .
qed

text \<open>
  Claim C3 at its own example. In the sample database the first user owns two surveys,
  one active and one draft, with five responses across both, and the second user owns
  one active survey. \<^verbatim>\<open>getSurveyStats\<close> for the first user counts two surveys and
  five responses, and two active surveys: the second \<^verbatim>\<open>.where\<close> of the
  \<^verbatim>\<open>activeSurveys\<close> query has replaced the owner condition, so the count is over the
  active surveys of all users.
\<close>

theorem getSurveyStats_counts_foreign_active:
  "getSurveyStats db0 ''u1''
     = \<lparr> totalSurveys = 2, totalResponses = 5, activeSurveys = 2, avgCompletionRate = 157 / 2 \<rparr>"
  by (simp add: getSurveyStats_def select_count_def select_where_def select_from_def
      innerJoin_def or_default_def db0_defs)

lemma createResponse_Some:
  assumes "createResponse d now uuid v = Some (r, d1)"
  shows "r = \<lparr> r_id = uuid, r_surveyId = ir_surveyId v, r_respondentId = ir_respondentId v,
              r_createdAt = Some now \<rparr>"
    and "d1 = d\<lparr>responses := responses d @ [r]\<rparr>"
  using assms by (auto simp: createResponse_def Let_def commit_def split: if_splits)

lemma createAnswer_Some:
  assumes "createAnswer d now uuid v = Some (a, d1)"
  shows "a = \<lparr> a_id = uuid, a_responseId = ia_responseId v, a_questionId = ia_questionId v,
              a_value = ia_value v, a_createdAt = Some now \<rparr>"
    and "d1 = d\<lparr>answers := answers d @ [a]\<rparr>"
  using assms by (auto simp: createAnswer_def Let_def commit_def split: if_splits)

lemma insertAnswerSchema_parse_Some:
  assumes "insertAnswerSchema_parse a rid = Some v"
  shows "ia_responseId v = rid" and "ra_questionId a = JStr (ia_questionId v)"
    and "ra_value a = JStr (ia_value v)"
  using assms
  by (cases "ra_questionId a"; cases "ra_value a";
      auto simp: insertAnswerSchema_parse_def)+

lemma answer_promises_frame:
  "answer_promises d now gen rid i rej as = (out, d') \<Longrightarrow>
     \<exists>new. d' = d\<lparr>answers := answers d @ new\<rparr> \<and> list_all (\<lambda>a. a_responseId a = rid) new
       \<and> length new \<le> length as
       \<and> subseq (map (\<lambda>a. (JStr (a_questionId a), JStr (a_value a))) new)
                 (map (\<lambda>a. (ra_questionId a, ra_value a)) as)"
proof (induction as arbitrary: d i rej)
  case Nil
  then show ?case by (auto intro: exI[of _ "[]"])
next
  case (Cons a as)
  show ?case
  proof (cases "insertAnswerSchema_parse a rid")
    case None
    with Cons.prems show ?thesis by (auto intro: exI[of _ "[]"])
  next
    case (Some v)
    note v = this
    show ?thesis
    proof (cases "createAnswer d now (gen (1 + i)) v")
      case None
      with v Cons.prems have "answer_promises d now gen rid (Suc i) True as = (out, d')"
        by simp
      from Cons.IH[OF this] obtain new where
        n: "d' = d\<lparr>answers := answers d @ new\<rparr>" "list_all (\<lambda>a. a_responseId a = rid) new"
          "length new \<le> length as"
          "subseq (map (\<lambda>a. (JStr (a_questionId a), JStr (a_value a))) new)
                  (map (\<lambda>a. (ra_questionId a, ra_value a)) as)" by blast
      from n(4) have "subseq (map (\<lambda>a. (JStr (a_questionId a), JStr (a_value a))) new)
                  (map (\<lambda>a. (ra_questionId a, ra_value a)) (a # as))"
        by (simp add: list_emb_Cons)
      with n(1,2,3) show ?thesis
        by (intro exI[of _ new]) simp
    next
      case (Some p)
      obtain row d1 where p: "p = (row, d1)" by (cases p)
      from Some p have c: "createAnswer d now (gen (1 + i)) v = Some (row, d1)" by simp
      from createAnswer_Some[OF c] insertAnswerSchema_parse_Some[OF v]
      have row: "a_responseId row = rid" "ra_questionId a = JStr (a_questionId row)"
          "ra_value a = JStr (a_value row)"
        and d1: "d1 = d\<lparr>answers := answers d @ [row]\<rparr>"
        by auto
      from c v Cons.prems
      have "answer_promises d1 now gen rid (Suc i) rej as = (out, d')" by simp
      from Cons.IH[OF this] obtain new where
        n: "d' = d1\<lparr>answers := answers d1 @ new\<rparr>" "list_all (\<lambda>a. a_responseId a = rid) new"
          "length new \<le> length as"
          "subseq (map (\<lambda>a. (JStr (a_questionId a), JStr (a_value a))) new)
                  (map (\<lambda>a. (ra_questionId a, ra_value a)) as)" by blast
      show ?thesis
        by (rule exI[of _ "row # new"]) (use n row d1 in simp)
    qed
  qed
qed

lemma answer_promises_Fulfilled:
  "answer_promises d now gen rid i rej as = (Fulfilled, d') \<Longrightarrow>
     \<exists>new. d' = d\<lparr>answers := answers d @ new\<rparr>
       \<and> map (\<lambda>a. (JStr (a_questionId a), JStr (a_value a))) new
           = map (\<lambda>a. (ra_questionId a, ra_value a)) as"
proof (induction as arbitrary: d i rej)
  case Nil
  then show ?case by (auto intro: exI[of _ "[]"] split: if_splits)
next
  case (Cons a as)
  show ?case
  proof (cases "insertAnswerSchema_parse a rid")
    case None
    with Cons.prems show ?thesis by auto
  next
    case (Some v)
    note v = this
    have rejected: "answer_promises e now gen rid k True xs \<noteq> (Fulfilled, e')" for e k xs e'
      by (induction xs arbitrary: e k) (auto split: option.splits)
    show ?thesis
    proof (cases "createAnswer d now (gen (1 + i)) v")
      case None
      with v Cons.prems rejected show ?thesis by simp
    next
      case (Some p)
      obtain row d1 where p: "p = (row, d1)" by (cases p)
      from Some p have c: "createAnswer d now (gen (1 + i)) v = Some (row, d1)" by simp
      from createAnswer_Some[OF c] insertAnswerSchema_parse_Some[OF v]
      have row: "ra_questionId a = JStr (a_questionId row)" "ra_value a = JStr (a_value row)"
        and d1: "d1 = d\<lparr>answers := answers d @ [row]\<rparr>"
        by auto
      from c v Cons.prems
      have "answer_promises d1 now gen rid (Suc i) rej as = (Fulfilled, d')" by simp
      from Cons.IH[OF this] obtain new where
        n: "d' = d1\<lparr>answers := answers d1 @ new\<rparr>"
          "map (\<lambda>a. (JStr (a_questionId a), JStr (a_value a))) new
             = map (\<lambda>a. (ra_questionId a, ra_value a)) as" by blast
      show ?thesis
        by (rule exI[of _ "row # new"]) (use n row d1 in simp)
    qed
  qed
qed

lemma route_post_response_cases:
  assumes "route_post_response d now gen tok body = (res, d')"
  shows "(d' = d \<and> res \<noteq> Json ())
     \<or> (\<exists>s v r d1. getSurveyByShareToken d tok = Some s \<and> s_status s = ''active''
           \<and> insertResponseSchema_parse (s_id s) (rb_respondentId body) = Some v
           \<and> createResponse d now (gen 0) v = Some (r, d1)
           \<and> (case rb_answers body of
                 None \<Rightarrow> res = Json () \<and> d' = d1
               | Some as \<Rightarrow> \<exists>out. answer_promises d1 now gen (r_id r) 0 False as = (out, d')
                    \<and> (res = Json ()) = (out = Fulfilled)))"
  using assms
  by (auto simp: route_post_response_def split: option.splits if_splits prod.splits outcome.splits)

lemma insertResponseSchema_parse_Some:
  assumes "insertResponseSchema_parse sid j = Some v"
  shows "ir_surveyId v = sid"
    and "ir_respondentId v = (case j of JStr s \<Rightarrow> if s = [] then None else Some s | _ \<Rightarrow> None)"
    and "truthy j \<longrightarrow> (\<exists>s. j = JStr s)"
  using assms
  by (cases j; auto simp: insertResponseSchema_parse_def split: if_splits)+

lemma find_map_same:
  "(\<And>x. P (f x) = P x) \<Longrightarrow> find P (map f xs) = map_option f (find P xs)"
  by (induction xs) auto

lemma constraints_ok_set_anonymous: "constraints_ok (set_anonymous anon d) = constraints_ok d"
  by (simp add: constraints_ok_def pk_ok_def unique_ok_def fk_ok_def set_anonymous_def
      o_def list_all_iff)

lemma commit_set_anonymous:
  "commit (set_anonymous anon d) = map_option (set_anonymous anon) (commit d)"
  by (simp add: commit_def constraints_ok_set_anonymous)

lemma createResponse_set_anonymous:
  "createResponse (set_anonymous anon d) now uuid v
     = map_option (\<lambda>(r, d1). (r, set_anonymous anon d1)) (createResponse d now uuid v)"
proof -
  have "(set_anonymous anon d)\<lparr>responses := rs\<rparr> = set_anonymous anon (d\<lparr>responses := rs\<rparr>)" for rs
    by (simp add: set_anonymous_def)
  moreover have "responses (set_anonymous anon d) = responses d"
    by (simp add: set_anonymous_def)
  ultimately show ?thesis
    by (simp add: createResponse_def Let_def commit_set_anonymous option.map_comp o_def)
qed

lemma createAnswer_set_anonymous:
  "createAnswer (set_anonymous anon d) now uuid v
     = map_option (\<lambda>(a, d1). (a, set_anonymous anon d1)) (createAnswer d now uuid v)"
proof -
  have "(set_anonymous anon d)\<lparr>answers := rs\<rparr> = set_anonymous anon (d\<lparr>answers := rs\<rparr>)" for rs
    by (simp add: set_anonymous_def)
  moreover have "answers (set_anonymous anon d) = answers d"
    by (simp add: set_anonymous_def)
  ultimately show ?thesis
    by (simp add: createAnswer_def Let_def commit_set_anonymous option.map_comp o_def)
qed

lemma answer_promises_set_anonymous:
  "answer_promises (set_anonymous anon d) now gen rid i rej as
     = (fst (answer_promises d now gen rid i rej as),
        set_anonymous anon (snd (answer_promises d now gen rid i rej as)))"
proof (induction as arbitrary: d i rej)
  case Nil
  show ?case by simp
next
  case (Cons a as)
  show ?case
    by (cases "insertAnswerSchema_parse a rid"; cases "createAnswer d now (gen (1 + i)) (the (insertAnswerSchema_parse a rid))")
       (auto simp: createAnswer_set_anonymous Cons.IH)
qed

lemma getSurveyByShareToken_set_anonymous:
  "getSurveyByShareToken (set_anonymous anon d) tok
     = map_option (\<lambda>s. s\<lparr>s_anonymous := anon s\<rparr>) (getSurveyByShareToken d tok)"
  by (simp add: getSurveyByShareToken_def set_anonymous_def find_map_same)

lemma route_post_response_set_anonymous:
  "route_post_response (set_anonymous anon d) now gen tok body
     = (fst (route_post_response d now gen tok body),
        set_anonymous anon (snd (route_post_response d now gen tok body)))"
proof (cases "getSurveyByShareToken d tok")
  case None
  then show ?thesis
    by (simp add: route_post_response_def getSurveyByShareToken_set_anonymous)
next
  case (Some s)
  note s = this
  show ?thesis
  proof (cases "s_status s \<noteq> ''active''")
    case True
    with s show ?thesis
      by (simp add: route_post_response_def getSurveyByShareToken_set_anonymous)
  next
    case False
    note act = this
    show ?thesis
    proof (cases "insertResponseSchema_parse (s_id s) (rb_respondentId body)")
      case None
      with s act show ?thesis
        by (simp add: route_post_response_def getSurveyByShareToken_set_anonymous)
    next
      case (Some v)
      note v = this
      show ?thesis
      proof (cases "createResponse d now (gen 0) v")
        case None
        with s act v show ?thesis
          by (simp add: route_post_response_def getSurveyByShareToken_set_anonymous
              createResponse_set_anonymous)
      next
        case (Some p)
        obtain r d1 where p: "p = (r, d1)" by (cases p)
        with Some have c: "createResponse d now (gen 0) v = Some (r, d1)" by simp
        show ?thesis
        proof (cases "rb_answers body")
          case None
          with s act v c show ?thesis
            by (simp add: route_post_response_def getSurveyByShareToken_set_anonymous
                createResponse_set_anonymous)
        next
          case (Some as)
          obtain out d2 where ap: "answer_promises d1 now gen (r_id r) 0 False as = (out, d2)"
            by (cases "answer_promises d1 now gen (r_id r) 0 False as")
          with s act v c Some show ?thesis
            by (cases out)
               (simp_all add: route_post_response_def getSurveyByShareToken_set_anonymous
                createResponse_set_anonymous answer_promises_set_anonymous)
        qed
      qed
    qed
  qed
qed

lemma route_post_response_written:
  assumes a: "route_post_response d now gen tok body = (res, d')"
  shows "(d' = d \<and> res \<noteq> Json ())
     \<or> (\<exists>s v r new. getSurveyByShareToken d tok = Some s \<and> s_status s = ''active''
           \<and> insertResponseSchema_parse (s_id s) (rb_respondentId body) = Some v
           \<and> r = \<lparr> r_id = gen 0, r_surveyId = s_id s, r_respondentId = ir_respondentId v,
                    r_createdAt = Some now \<rparr>
           \<and> d' = d\<lparr>responses := responses d @ [r], answers := answers d @ new\<rparr>
           \<and> list_all (\<lambda>a. a_responseId a = gen 0) new
           \<and> length new \<le> length (or_default (rb_answers body) [])
           \<and> subseq (map (\<lambda>a. (JStr (a_questionId a), JStr (a_value a))) new)
                (map (\<lambda>a. (ra_questionId a, ra_value a)) (or_default (rb_answers body) []))
           \<and> (res = Json () \<longrightarrow>
                 map (\<lambda>a. (JStr (a_questionId a), JStr (a_value a))) new
                   = map (\<lambda>a. (ra_questionId a, ra_value a)) (or_default (rb_answers body) [])))"
proof (cases "d' = d \<and> res \<noteq> Json ()")
  case True
  then show ?thesis by blast
next
  case False
  with route_post_response_cases[OF a] obtain s v r d1 where
    s: "getSurveyByShareToken d tok = Some s" "s_status s = ''active''"
    and v: "insertResponseSchema_parse (s_id s) (rb_respondentId body) = Some v"
    and c: "createResponse d now (gen 0) v = Some (r, d1)"
    and rest: "case rb_answers body of
                 None \<Rightarrow> res = Json () \<and> d' = d1
               | Some as \<Rightarrow> \<exists>out. answer_promises d1 now gen (r_id r) 0 False as = (out, d')
                    \<and> (res = Json ()) = (out = Fulfilled)"
    by blast
  from createResponse_Some[OF c] insertResponseSchema_parse_Some(1)[OF v]
  have r: "r = \<lparr> r_id = gen 0, r_surveyId = s_id s, r_respondentId = ir_respondentId v,
                    r_createdAt = Some now \<rparr>"
    and d1: "d1 = d\<lparr>responses := responses d @ [r]\<rparr>" by auto
  from r have rid: "r_id r = gen 0" by simp
  have "\<exists>new. d' = d1\<lparr>answers := answers d1 @ new\<rparr>
           \<and> list_all (\<lambda>a. a_responseId a = gen 0) new
           \<and> length new \<le> length (or_default (rb_answers body) [])
           \<and> subseq (map (\<lambda>a. (JStr (a_questionId a), JStr (a_value a))) new)
                (map (\<lambda>a. (ra_questionId a, ra_value a)) (or_default (rb_answers body) []))
           \<and> (res = Json () \<longrightarrow>
                 map (\<lambda>a. (JStr (a_questionId a), JStr (a_value a))) new
                   = map (\<lambda>a. (ra_questionId a, ra_value a)) (or_default (rb_answers body) []))"
  proof (cases "rb_answers body")
    case None
    with rest show ?thesis by (auto simp: or_default_def intro!: exI[of _ "[]"])
  next
    case (Some as)
    with rest rid obtain out where
      ap: "answer_promises d1 now gen (gen 0) 0 False as = (out, d')"
      and out: "(res = Json ()) = (out = Fulfilled)" by auto
    from answer_promises_frame[OF ap] obtain new where
      n: "d' = d1\<lparr>answers := answers d1 @ new\<rparr>" "list_all (\<lambda>a. a_responseId a = gen 0) new"
        "length new \<le> length as"
        "subseq (map (\<lambda>a. (JStr (a_questionId a), JStr (a_value a))) new)
                (map (\<lambda>a. (ra_questionId a, ra_value a)) as)" by blast
    have "map (\<lambda>a. (JStr (a_questionId a), JStr (a_value a))) new
                   = map (\<lambda>a. (ra_questionId a, ra_value a)) as" if "res = Json ()"
    proof -
      from that out ap have "answer_promises d1 now gen (gen 0) 0 False as = (Fulfilled, d')"
        by simp
      from answer_promises_Fulfilled[OF this] obtain new' where
        n': "d' = d1\<lparr>answers := answers d1 @ new'\<rparr>"
          "map (\<lambda>a. (JStr (a_questionId a), JStr (a_value a))) new'
             = map (\<lambda>a. (ra_questionId a, ra_value a)) as" by blast
      from n(1) n'(1) have "answers d1 @ new = answers d1 @ new'"
        by (metis db.select_convs(5) db.surjective db.update_convs(5))
      with n'(2) show ?thesis by simp
    qed
    with n Some show ?thesis by (auto simp: or_default_def)
  qed
  then obtain new where
    n: "d' = d1\<lparr>answers := answers d1 @ new\<rparr>"
       "list_all (\<lambda>a. a_responseId a = gen 0) new"
       "length new \<le> length (or_default (rb_answers body) [])"
       "subseq (map (\<lambda>a. (JStr (a_questionId a), JStr (a_value a))) new)
               (map (\<lambda>a. (ra_questionId a, ra_value a)) (or_default (rb_answers body) []))"
       "res = Json () \<longrightarrow>
                 map (\<lambda>a. (JStr (a_questionId a), JStr (a_value a))) new
                   = map (\<lambda>a. (ra_questionId a, ra_value a)) (or_default (rb_answers body) [])"
    by blast
  from n(1) d1 have "d' = d\<lparr>responses := responses d @ [r], answers := answers d @ new\<rparr>"
    by simp
  with s v r n(2,3,4,5) show ?thesis by blast
qed

text \<open>
  Claim C10, as the code has it. When the submission route accepts a submission
  (answers 200), it has appended one response whose \<^verbatim>\<open>respondentId\<close> is the string
  the caller supplied when that string is not empty, and NULL in every other case: when
  the caller supplied nothing or \<^verbatim>\<open>null\<close>, and also when the caller supplied another
  falsy value such as the empty string, which \<^verbatim>\<open>req.body.respondentId || null\<close> turns
  into \<^verbatim>\<open>null\<close>. A truthy value that is accepted is a string. The route does not
  depend on the \<^verbatim>\<open>anonymous\<close> flag: with the flags of the surveys set in any other
  way it gives the same answer and writes the same rows.
\<close>

theorem respondentId_as_supplied:
  "(route_post_response d now gen tok body = (Json (), d') \<longrightarrow>
      (\<exists>r. responses d' = responses d @ [r]
          \<and> r_respondentId r =
              (case rb_respondentId body of
                 JStr s \<Rightarrow> if s = [] then None else Some s
               | _ \<Rightarrow> None)
          \<and> (truthy (rb_respondentId body) \<longrightarrow> (\<exists>s. rb_respondentId body = JStr s))))
   \<and> route_post_response (set_anonymous anon d) now gen tok body
       = (fst (route_post_response d now gen tok body),
          set_anonymous anon (snd (route_post_response d now gen tok body)))"
proof (intro conjI impI)
  assume a: "route_post_response d now gen tok body = (Json (), d')"
  from route_post_response_written[OF a]
  have "\<exists>(s::survey) v r new. insertResponseSchema_parse (s_id s) (rb_respondentId body) = Some v
      \<and> r = \<lparr> r_id = gen 0, r_surveyId = s_id s, r_respondentId = ir_respondentId v,
                    r_createdAt = Some now \<rparr>
      \<and> d' = d\<lparr>responses := responses d @ [r], answers := answers d @ new\<rparr>"
    by simp blast
  then obtain s :: survey and v r new where
    v: "insertResponseSchema_parse (s_id s) (rb_respondentId body) = Some v"
    and r: "r = \<lparr> r_id = gen 0, r_surveyId = s_id s, r_respondentId = ir_respondentId v,
                    r_createdAt = Some now \<rparr>"
    and d': "d' = d\<lparr>responses := responses d @ [r], answers := answers d @ new\<rparr>"
    by blast
  from d' have "responses d' = responses d @ [r]" by simp
  moreover from r have "r_respondentId r = ir_respondentId v" by simp
  ultimately show "\<exists>r. responses d' = responses d @ [r]
          \<and> r_respondentId r =
              (case rb_respondentId body of
                 JStr s \<Rightarrow> if s = [] then None else Some s
               | _ \<Rightarrow> None)
          \<and> (truthy (rb_respondentId body) \<longrightarrow> (\<exists>s. rb_respondentId body = JStr s))"
    using insertResponseSchema_parse_Some(2,3)[OF v] by auto
next
  show "route_post_response (set_anonymous anon d) now gen tok body
       = (fst (route_post_response d now gen tok body),
          set_anonymous anon (snd (route_post_response d now gen tok body)))"
    by (rule route_post_response_set_anonymous)
qed

lemma gen0_values: "gen0 0 = ''n0''" "gen0 1 = ''n1''" "gen0 2 = ''n2''" "gen0 3 = ''n3''"
  "gen0 4 = ''n4''" "gen0 (Suc 0) = ''n1''" "gen0 (Suc (Suc 0)) = ''n2''"
  by (simp_all add: gen0_def toString.simps digit_char_def)

lemmas route_post_response_defs = route_post_response_def getSurveyByShareToken_def
  insertResponseSchema_parse_def insertAnswerSchema_parse_def createResponse_def
  createAnswer_def commit_def constraints_ok_def pk_ok_def unique_ok_def fk_ok_def Let_def

lemma post_response_db0_bob:
  "route_post_response db0 50 gen0 ''t3'' \<lparr> rb_respondentId = JStr ''bob'', rb_answers = None \<rparr>
     = (Json (), db0\<lparr>responses := responses db0 @
          [\<lparr> r_id = ''n0'', r_surveyId = ''s3'', r_respondentId = Some ''bob'',
             r_createdAt = Some 50 \<rparr>]\<rparr>)"
  by (simp add: route_post_response_defs gen0_values db0_defs)

theorem respondentId_as_supplied_witness:
  "route_post_response db0 50 gen0 ''t3'' \<lparr> rb_respondentId = JStr ''bob'', rb_answers = None \<rparr>
     = (Json (), db0\<lparr>responses := responses db0 @
          [\<lparr> r_id = ''n0'', r_surveyId = ''s3'', r_respondentId = Some ''bob'',
             r_createdAt = Some 50 \<rparr>]\<rparr>)
   \<and> (\<exists>r. responses (db0\<lparr>responses := responses db0 @
          [\<lparr> r_id = ''n0'', r_surveyId = ''s3'', r_respondentId = Some ''bob'',
             r_createdAt = Some 50 \<rparr>]\<rparr>) = responses db0 @ [r]
         \<and> r_respondentId r = Some ''bob'')
   \<and> fst (route_post_response (set_anonymous (\<lambda>s. True) db0) 50 gen0 ''t3''
            \<lparr> rb_respondentId = JStr ''bob'', rb_answers = None \<rparr>) = Json ()"
proof -
  note th = respondentId_as_supplied[where d = db0 and now = 50 and gen = gen0
      and tok = "''t3''" and body = "\<lparr> rb_respondentId = JStr ''bob'', rb_answers = None \<rparr>"
      and d' = "db0\<lparr>responses := responses db0 @
          [\<lparr> r_id = ''n0'', r_surveyId = ''s3'', r_respondentId = Some ''bob'',
             r_createdAt = Some 50 \<rparr>]\<rparr>" and anon = "\<lambda>s. True"]
  from th post_response_db0_bob
  have a: "\<exists>r. responses (db0\<lparr>responses := responses db0 @
          [\<lparr> r_id = ''n0'', r_surveyId = ''s3'', r_respondentId = Some ''bob'',
             r_createdAt = Some 50 \<rparr>]\<rparr>) = responses db0 @ [r]
         \<and> r_respondentId r = Some ''bob''"
    by simp
  from th post_response_db0_bob
  have b: "fst (route_post_response (set_anonymous (\<lambda>s. True) db0) 50 gen0 ''t3''
            \<lparr> rb_respondentId = JStr ''bob'', rb_answers = None \<rparr>) = Json ()"
    by simp
  from post_response_db0_bob a b show ?thesis by blast
qed

text \<open>
  Claim C10 as stated fails. A POST that supplies the empty string as \<^verbatim>\<open>respondentId\<close>
  (to a survey that is not anonymous) is answered 200, and the response it leaves has
  the \<^verbatim>\<open>respondentId\<close> NULL, not the string supplied.
\<close>

theorem respondentId_empty_string_counterexample:
  "s_anonymous (mk_survey ''s3'' ''u2'' ''active'' False ''t3'') = False
   \<and> route_post_response db0 50 gen0 ''t3'' \<lparr> rb_respondentId = JStr [], rb_answers = None \<rparr>
     = (Json (), db0\<lparr>responses := responses db0 @
          [\<lparr> r_id = ''n0'', r_surveyId = ''s3'', r_respondentId = None,
             r_createdAt = Some 50 \<rparr>]\<rparr>)"
  by (simp add: route_post_response_defs gen0_values db0_defs)

text \<open>
  Claim C1, as the code has it. The check for required questions is made by the public
  form, not by the route. When the survey the page holds has a required question for
  which the form state has no entry or an empty one (the question's id not being one of
  the names an object inherits), \<^verbatim>\<open>handleSubmit\<close> returns without sending the request,
  so the database is as before: no response row and no answer row is written.
\<close>

theorem form_rejects_missing_required:
  assumes "q \<in> set qs" and "q_required q"
    and "q_id q \<notin> set object_prototype_keys"
    and "map_of formResponses (q_id q) = None \<or> map_of formResponses (q_id q) = Some ''''"
  shows "handleSubmit d now gen tok (Some (s, qs)) formResponses = (None, d)"
proof -
  from assms(3,4) have "\<not> prop_truthy formResponses (q_id q)"
    by (auto simp: prop_truthy_def)
  with assms(1,2)
  have "q \<in> set (filter (\<lambda>q. \<not> prop_truthy formResponses (q_id q)) (filter q_required qs))"
    by simp
  then have "length (filter (\<lambda>q. \<not> prop_truthy formResponses (q_id q)) (filter q_required qs)) > 0"
    by (rule length_pos_if_in_set)
  then show ?thesis by (simp add: handleSubmit_def Let_def)
qed

theorem form_rejects_missing_required_witness:
  "mk_question ''q1'' ''s1'' ''multiple-choice'' True (Some [''A'', ''B'']) 0 \<in> set (questions db0)
   \<and> q_required (mk_question ''q1'' ''s1'' ''multiple-choice'' True (Some [''A'', ''B'']) 0)
   \<and> ''q1'' \<notin> set object_prototype_keys
   \<and> map_of [(''q1'', ''''), (''q3'', ''fine'')] ''q1'' = Some ''''
   \<and> handleSubmit db0 50 gen0 ''t1''
        (Some (mk_survey ''s1'' ''u1'' ''active'' True ''t1'', questions db0))
        [(''q1'', ''''), (''q3'', ''fine'')] = (None, db0)"
proof -
  let ?q = "mk_question ''q1'' ''s1'' ''multiple-choice'' True (Some [''A'', ''B'']) 0"
  have a: "?q \<in> set (questions db0)" by (simp add: db0_def)
  have b: "q_required ?q" by (simp add: mk_question_def)
  have c: "q_id ?q \<notin> set object_prototype_keys"
    by (simp add: mk_question_def object_prototype_keys_def)
  have e: "map_of [(''q1'', ''''), (''q3'', ''fine'')] (q_id ?q) = None
      \<or> map_of [(''q1'', ''''), (''q3'', ''fine'')] (q_id ?q) = Some ''''"
    by (simp add: mk_question_def)
  from form_rejects_missing_required[OF a b c e, of db0 50 gen0 "''t1''"
      "mk_survey ''s1'' ''u1'' ''active'' True ''t1''"] a b c e
  show ?thesis by (simp add: mk_question_def)
qed

text \<open>
  Claim C1 as stated fails on the route. In the sample database the active survey with
  share token \<^verbatim>\<open>t1\<close> has the required question \<^verbatim>\<open>q1\<close>. A POST with an empty
  \<^verbatim>\<open>answers\<close> array is answered 200 and leaves one new response row.
\<close>

theorem post_response_ignores_required_counterexample:
  "q_required (mk_question ''q1'' ''s1'' ''multiple-choice'' True (Some [''A'', ''B'']) 0)
   \<and> map q_id (filter q_required (getQuestionsBySurvey db0 ''s1'')) = [''q1'']
   \<and> route_post_response db0 50 gen0 ''t1'' \<lparr> rb_respondentId = JUndefined, rb_answers = Some [] \<rparr>
     = (Json (), db0\<lparr>responses := responses db0 @
          [\<lparr> r_id = ''n0'', r_surveyId = ''s1'', r_respondentId = None,
             r_createdAt = Some 50 \<rparr>]\<rparr>)"
  by (simp add: route_post_response_defs getQuestionsBySurvey_def gen0_values db0_defs)

text \<open>
  Claim C2, as the code has it. The route writes in steps and takes nothing back. A
  request answered 404 has written nothing. Whatever the answer, the database is either
  as before, or it has gained the response row and some of the answers of the payload
  (a subsequence of the payload, in payload order), each tied to that response; the
  other tables never change. A request answered 200 has written the response and one
  answer per element of the payload, in order.
\<close>

theorem post_response_stepwise:
  assumes "route_post_response d now gen tok body = (res, d')"
  shows "(res = NotFound \<longrightarrow> d' = d)
     \<and> (d' = d \<and> res \<noteq> Json ()
        \<or> (\<exists>r new. d' = d\<lparr>responses := responses d @ [r], answers := answers d @ new\<rparr>
              \<and> r_id r = gen 0
              \<and> list_all (\<lambda>a. a_responseId a = r_id r) new
              \<and> length new \<le> length (or_default (rb_answers body) [])
              \<and> subseq (map (\<lambda>a. (JStr (a_questionId a), JStr (a_value a))) new)
                   (map (\<lambda>a. (ra_questionId a, ra_value a)) (or_default (rb_answers body) []))
              \<and> (res = Json () \<longrightarrow>
                   map (\<lambda>a. (JStr (a_questionId a), JStr (a_value a))) new
                     = map (\<lambda>a. (ra_questionId a, ra_value a)) (or_default (rb_answers body) []))))"
proof
  show "res = NotFound \<longrightarrow> d' = d"
    using assms
    by (auto simp: route_post_response_def
        split: option.splits if_splits prod.splits outcome.splits)
next
  from route_post_response_written[OF assms]
  show "d' = d \<and> res \<noteq> Json ()
        \<or> (\<exists>r new. d' = d\<lparr>responses := responses d @ [r], answers := answers d @ new\<rparr>
              \<and> r_id r = gen 0
              \<and> list_all (\<lambda>a. a_responseId a = r_id r) new
              \<and> length new \<le> length (or_default (rb_answers body) [])
              \<and> subseq (map (\<lambda>a. (JStr (a_questionId a), JStr (a_value a))) new)
                   (map (\<lambda>a. (ra_questionId a, ra_value a)) (or_default (rb_answers body) []))
              \<and> (res = Json () \<longrightarrow>
                   map (\<lambda>a. (JStr (a_questionId a), JStr (a_value a))) new
                     = map (\<lambda>a. (ra_questionId a, ra_value a)) (or_default (rb_answers body) [])))"
  proof (elim disjE exE conjE)
    assume "d' = d" "res \<noteq> Json ()"
    then show ?thesis by blast
  next
    fix s :: survey and v r new
    assume r: "r = \<lparr> r_id = gen 0, r_surveyId = s_id s, r_respondentId = ir_respondentId v,
                    r_createdAt = Some now \<rparr>"
      and rest: "d' = d\<lparr>responses := responses d @ [r], answers := answers d @ new\<rparr>"
        "list_all (\<lambda>a. a_responseId a = gen 0) new"
        "length new \<le> length (or_default (rb_answers body) [])"
        "subseq (map (\<lambda>a. (JStr (a_questionId a), JStr (a_value a))) new)
                (map (\<lambda>a. (ra_questionId a, ra_value a)) (or_default (rb_answers body) []))"
        "res = Json () \<longrightarrow>
                 map (\<lambda>a. (JStr (a_questionId a), JStr (a_value a))) new
                   = map (\<lambda>a. (ra_questionId a, ra_value a)) (or_default (rb_answers body) [])"
    from r have "r_id r = gen 0" by simp
    with rest
    have "d' = d\<lparr>responses := responses d @ [r], answers := answers d @ new\<rparr>
              \<and> r_id r = gen 0
              \<and> list_all (\<lambda>a. a_responseId a = r_id r) new
              \<and> length new \<le> length (or_default (rb_answers body) [])
              \<and> subseq (map (\<lambda>a. (JStr (a_questionId a), JStr (a_value a))) new)
                   (map (\<lambda>a. (ra_questionId a, ra_value a)) (or_default (rb_answers body) []))
              \<and> (res = Json () \<longrightarrow>
                   map (\<lambda>a. (JStr (a_questionId a), JStr (a_value a))) new
                     = map (\<lambda>a. (ra_questionId a, ra_value a)) (or_default (rb_answers body) []))"
      by simp
    then show ?thesis by blast
  qed
qed

lemma post_response_db0_partial:
  "route_post_response db0 50 gen0 ''t1''
       \<lparr> rb_respondentId = JUndefined,
         rb_answers = Some [\<lparr> ra_questionId = JStr ''q2'', ra_value = JStr ''7'' \<rparr>,
                            \<lparr> ra_questionId = JStr ''q1'', ra_value = JUndefined \<rparr>] \<rparr>
     = (BadRequest,
        db0\<lparr>responses := responses db0 @ [(mk_response ''n0'' ''s1'')\<lparr>r_createdAt := Some 50\<rparr>],
            answers := answers db0 @
               [(mk_answer ''n1'' ''n0'' ''q2'' ''7'')\<lparr>a_createdAt := Some 50\<rparr>]\<rparr>)"
  by (simp add: route_post_response_defs gen0_values db0_defs)

theorem post_response_stepwise_witness:
  "route_post_response db0 50 gen0 ''t2'' \<lparr> rb_respondentId = JUndefined, rb_answers = None \<rparr>
     = (NotFound, db0)
   \<and> route_post_response db0 50 gen0 ''t3'' \<lparr> rb_respondentId = JStr ''bob'', rb_answers = None \<rparr>
     = (Json (), db0\<lparr>responses := responses db0 @
          [\<lparr> r_id = ''n0'', r_surveyId = ''s3'', r_respondentId = Some ''bob'',
             r_createdAt = Some 50 \<rparr>]\<rparr>)
   \<and> (\<exists>r new. db0\<lparr>responses := responses db0 @
          [\<lparr> r_id = ''n0'', r_surveyId = ''s3'', r_respondentId = Some ''bob'',
             r_createdAt = Some 50 \<rparr>]\<rparr>
          = db0\<lparr>responses := responses db0 @ [r], answers := answers db0 @ new\<rparr>
        \<and> r_id r = ''n0'' \<and> new = [])
   \<and> route_post_response db0 50 gen0 ''t1''
       \<lparr> rb_respondentId = JUndefined,
         rb_answers = Some [\<lparr> ra_questionId = JStr ''q2'', ra_value = JStr ''7'' \<rparr>,
                            \<lparr> ra_questionId = JStr ''q1'', ra_value = JUndefined \<rparr>] \<rparr>
     = (BadRequest,
        db0\<lparr>responses := responses db0 @ [(mk_response ''n0'' ''s1'')\<lparr>r_createdAt := Some 50\<rparr>],
            answers := answers db0 @
               [(mk_answer ''n1'' ''n0'' ''q2'' ''7'')\<lparr>a_createdAt := Some 50\<rparr>]\<rparr>)
   \<and> (\<exists>r new. db0\<lparr>responses := responses db0 @
               [(mk_response ''n0'' ''s1'')\<lparr>r_createdAt := Some 50\<rparr>],
            answers := answers db0 @
               [(mk_answer ''n1'' ''n0'' ''q2'' ''7'')\<lparr>a_createdAt := Some 50\<rparr>]\<rparr>
          = db0\<lparr>responses := responses db0 @ [r], answers := answers db0 @ new\<rparr>
        \<and> r_id r = ''n0''
        \<and> list_all (\<lambda>a. a_responseId a = ''n0'') new
        \<and> subseq (map (\<lambda>a. (JStr (a_questionId a), JStr (a_value a))) new)
             [(JStr ''q2'', JStr ''7''), (JStr ''q1'', JUndefined)])"
proof -
  have nf: "route_post_response db0 50 gen0 ''t2''
      \<lparr> rb_respondentId = JUndefined, rb_answers = None \<rparr> = (NotFound, db0)"
    by (simp add: route_post_response_defs db0_defs)
  let ?d = "db0\<lparr>responses := responses db0 @
          [\<lparr> r_id = ''n0'', r_surveyId = ''s3'', r_respondentId = Some ''bob'',
             r_createdAt = Some 50 \<rparr>]\<rparr>"
  have ne: "?d \<noteq> db0"
  proof
    assume "?d = db0"
    then have "responses ?d = responses db0" by simp
    then show False by simp
  qed
  from post_response_stepwise[OF post_response_db0_bob] ne
  have "\<exists>r new. ?d = db0\<lparr>responses := responses db0 @ [r], answers := answers db0 @ new\<rparr>
        \<and> r_id r = gen0 0
        \<and> map (\<lambda>a. (JStr (a_questionId a), JStr (a_value a))) new = []"
    by (simp add: or_default_def)
  then have ok: "\<exists>r new. ?d = db0\<lparr>responses := responses db0 @ [r], answers := answers db0 @ new\<rparr>
        \<and> r_id r = ''n0'' \<and> new = []"
    by (simp add: gen0_values)
  let ?p = "db0\<lparr>responses := responses db0 @
               [(mk_response ''n0'' ''s1'')\<lparr>r_createdAt := Some 50\<rparr>],
            answers := answers db0 @
               [(mk_answer ''n1'' ''n0'' ''q2'' ''7'')\<lparr>a_createdAt := Some 50\<rparr>]\<rparr>"
  have np: "?p \<noteq> db0"
  proof
    assume "?p = db0"
    then have "responses ?p = responses db0" by simp
    then show False by simp
  qed
  from post_response_stepwise[OF post_response_db0_partial] np
  have "\<exists>r new. ?p = db0\<lparr>responses := responses db0 @ [r], answers := answers db0 @ new\<rparr>
        \<and> r_id r = gen0 0
        \<and> list_all (\<lambda>a. a_responseId a = r_id r) new
        \<and> subseq (map (\<lambda>a. (JStr (a_questionId a), JStr (a_value a))) new)
             (map (\<lambda>a. (ra_questionId a, ra_value a))
                [\<lparr> ra_questionId = JStr ''q2'', ra_value = JStr ''7'' \<rparr>,
                 \<lparr> ra_questionId = JStr ''q1'', ra_value = JUndefined \<rparr>])"
    by (simp add: or_default_def) blast
  then obtain r new where
    pr: "?p = db0\<lparr>responses := responses db0 @ [r], answers := answers db0 @ new\<rparr>"
      "r_id r = gen0 0" "list_all (\<lambda>a. a_responseId a = r_id r) new"
      "subseq (map (\<lambda>a. (JStr (a_questionId a), JStr (a_value a))) new)
             (map (\<lambda>a. (ra_questionId a, ra_value a))
                [\<lparr> ra_questionId = JStr ''q2'', ra_value = JStr ''7'' \<rparr>,
                 \<lparr> ra_questionId = JStr ''q1'', ra_value = JUndefined \<rparr>])"
    by blast
  from pr(2) have rid: "r_id r = ''n0''" by (simp add: gen0_values)
  from pr(3) rid have la: "list_all (\<lambda>a. a_responseId a = ''n0'') new" by simp
  from pr(4) have sub: "subseq (map (\<lambda>a. (JStr (a_questionId a), JStr (a_value a))) new)
             [(JStr ''q2'', JStr ''7''), (JStr ''q1'', JUndefined)]" by simp
  from pr(1) rid la sub
  have partial: "\<exists>r new. ?p = db0\<lparr>responses := responses db0 @ [r], answers := answers db0 @ new\<rparr>
        \<and> r_id r = ''n0''
        \<and> list_all (\<lambda>a. a_responseId a = ''n0'') new
        \<and> subseq (map (\<lambda>a. (JStr (a_questionId a), JStr (a_value a))) new)
             [(JStr ''q2'', JStr ''7''), (JStr ''q1'', JUndefined)]"
    by blast
  from nf post_response_db0_bob ok post_response_db0_partial partial show ?thesis by blast
qed

text \<open>
  Claim C2 as stated fails. A POST whose second answer has no \<^verbatim>\<open>value\<close> is answered
  400, and the response row and the first answer stay in the database.
\<close>

theorem post_response_partial_counterexample:
  "route_post_response db0 50 gen0 ''t1''
       \<lparr> rb_respondentId = JUndefined,
         rb_answers = Some [\<lparr> ra_questionId = JStr ''q2'', ra_value = JStr ''7'' \<rparr>,
                            \<lparr> ra_questionId = JStr ''q1'', ra_value = JUndefined \<rparr>] \<rparr>
     = (BadRequest,
        db0\<lparr>responses := responses db0 @
               [\<lparr> r_id = ''n0'', r_surveyId = ''s1'', r_respondentId = None,
                  r_createdAt = Some 50 \<rparr>],
            answers := answers db0 @
               [\<lparr> a_id = ''n1'', a_responseId = ''n0'', a_questionId = ''q2'', a_value = ''7'',
                  a_createdAt = Some 50 \<rparr>]\<rparr>)"
  by (simp add: route_post_response_defs gen0_values db0_defs)

lemma createSurvey_Some:
  assumes "createSurvey d now uuid1 uuid2 v = Some (s, d1)"
  shows "d1 = d\<lparr>surveys := surveys d @ [s]\<rparr>" and "constraints_ok d1"
  using assms
  by (auto simp: createSurvey_def Let_def commit_def split: option.splits if_splits)

lemma createQuestion_Some:
  assumes "createQuestion d now uuid v = Some (q, d1)"
  shows "d1 = d\<lparr>questions := questions d @ [q]\<rparr>"
    and "qv_surveyId v = Some (q_surveyId q)" and "qv_order v = Some (q_order q)"
    and "qv_text v = Some (q_text q)"
  using assms
  by (auto simp: createQuestion_def Let_def commit_def split: option.splits if_splits)

lemma insertQuestionSchema_parse_Some:
  assumes "insertQuestionSchema_parse q i = Some v"
  shows "qv_order v = Some (int i)" and "\<exists>t. rq_text q = JStr t \<and> qv_text v = Some t"
  using assms
  by (cases "rq_text q"; cases "rq_type q";
      auto simp: insertQuestionSchema_parse_def split: option.splits)+

lemma question_promises_not_Fulfilled:
  "question_promises d now gen sid i True qs \<noteq> (Fulfilled, d')"
  by (induction qs arbitrary: d i) (auto split: option.splits)

lemma question_promises_Fulfilled:
  "question_promises d now gen sid i rej qs = (Fulfilled, d') \<Longrightarrow>
     \<exists>new. d' = d\<lparr>questions := questions d @ new\<rparr>
       \<and> map q_order new = map int [i..<i + length qs]
       \<and> list_all (\<lambda>q. q_surveyId q = sid) new
       \<and> map (\<lambda>q. JStr (q_text q)) new = map rq_text qs"
proof (induction qs arbitrary: d i rej)
  case Nil
  then show ?case by (auto intro: exI[of _ "[]"] split: if_splits)
next
  case (Cons q qs)
  show ?case
  proof (cases "insertQuestionSchema_parse q i")
    case None
    with Cons.prems show ?thesis by auto
  next
    case (Some v)
    note v = this
    show ?thesis
    proof (cases "createQuestion d now (gen (2 + i)) (v\<lparr>qv_surveyId := Some sid\<rparr>)")
      case None
      with v Cons.prems question_promises_not_Fulfilled show ?thesis by simp
    next
      case (Some p)
      obtain row d1 where p: "p = (row, d1)" by (cases p)
      from Some p
      have c: "createQuestion d now (gen (2 + i)) (v\<lparr>qv_surveyId := Some sid\<rparr>) = Some (row, d1)"
        by simp
      from createQuestion_Some[OF c] insertQuestionSchema_parse_Some[OF v]
      have row: "q_surveyId row = sid" "q_order row = int i" "rq_text q = JStr (q_text row)"
        and d1: "d1 = d\<lparr>questions := questions d @ [row]\<rparr>"
        by auto
      from c v Cons.prems
      have "question_promises d1 now gen sid (Suc i) rej qs = (Fulfilled, d')" by simp
      from Cons.IH[OF this] obtain new where
        n: "d' = d1\<lparr>questions := questions d1 @ new\<rparr>"
          "map q_order new = map int [Suc i..<Suc i + length qs]"
          "list_all (\<lambda>q. q_surveyId q = sid) new"
          "map (\<lambda>q. JStr (q_text q)) new = map rq_text qs" by blast
      have "[i..<i + length (q # qs)] = i # [Suc i..<Suc i + length qs]"
        by (subst upt_rec) simp
      with n row d1 show ?thesis
        by (intro exI[of _ "row # new"]) simp
    qed
  qed
qed

lemma route_post_survey_Json:
  assumes "route_post_survey d now gen uid body = (Json s, d')"
  shows "\<exists>v d1 new. createSurvey d now (gen 0) (gen 1) v = Some (s, d1)
      \<and> d' = d1\<lparr>questions := questions d1 @ new\<rparr>
      \<and> map q_order new = map int [0..<length (or_default (sb_questions body) [])]
      \<and> list_all (\<lambda>q. q_surveyId q = s_id s) new
      \<and> map (\<lambda>q. JStr (q_text q)) new = map rq_text (or_default (sb_questions body) [])"
proof -
  from assms obtain v where v: "insertSurveySchema_parse body = Some v"
    by (auto simp: route_post_survey_def split: option.splits)
  with assms obtain s1 d1 where
    c: "createSurvey d now (gen 0) (gen 1) (v\<lparr>sv_createdBy := Some uid\<rparr>) = Some (s1, d1)"
    by (auto simp: route_post_survey_def split: option.splits)
  show ?thesis
  proof (cases "sb_questions body")
    case None
    with assms v c have "s1 = s" "d' = d1" by (auto simp: route_post_survey_def)
    with c None show ?thesis
      by (intro exI[of _ "v\<lparr>sv_createdBy := Some uid\<rparr>"] exI[of _ d1] exI[of _ "[]"])
         (simp add: or_default_def)
  next
    case (Some qs)
    with assms v c have s1: "s1 = s"
      and "question_promises d1 now gen (s_id s1) 0 False qs = (Fulfilled, d')"
      by (auto simp: route_post_survey_def split: prod.splits outcome.splits)
    from question_promises_Fulfilled[OF this(2)] obtain new where
      "d' = d1\<lparr>questions := questions d1 @ new\<rparr>"
      "map q_order new = map int [0..<0 + length qs]"
      "list_all (\<lambda>q. q_surveyId q = s_id s1) new"
      "map (\<lambda>q. JStr (q_text q)) new = map rq_text qs" by blast
    with c s1 Some show ?thesis
      by (intro exI[of _ "v\<lparr>sv_createdBy := Some uid\<rparr>"] exI[of _ d1] exI[of _ new])
         (simp add: or_default_def)
  qed
qed

text \<open>
  Claim C4, as the code has it. Right after POST /api/surveys has created a survey
  (answer 200) in a database that satisfies its foreign keys, the questions of the new
  survey, fetched in \<^verbatim>\<open>order\<close>, are the questions of the payload in payload order and
  their \<^verbatim>\<open>order\<close> values are 0, 1, ..., N-1. Nothing is said of later deletions or
  updates: no operation of the code renumbers.
\<close>

theorem post_survey_orders_dense:
  assumes "fk_ok d" and "route_post_survey d now gen uid body = (Json s, d')"
  shows "map q_order (getQuestionsBySurvey d' (s_id s))
           = map int [0..<length (or_default (sb_questions body) [])]
       \<and> map (\<lambda>q. JStr (q_text q)) (getQuestionsBySurvey d' (s_id s))
           = map rq_text (or_default (sb_questions body) [])"
proof -
  from route_post_survey_Json[OF assms(2)] obtain v d1 new where
    c: "createSurvey d now (gen 0) (gen 1) v = Some (s, d1)"
    and d': "d' = d1\<lparr>questions := questions d1 @ new\<rparr>"
    and ord: "map q_order new = map int [0..<length (or_default (sb_questions body) [])]"
    and sid: "list_all (\<lambda>q. q_surveyId q = s_id s) new"
    and texts: "map (\<lambda>q. JStr (q_text q)) new = map rq_text (or_default (sb_questions body) [])"
    by blast
  from createSurvey_Some[OF c] have d1: "d1 = d\<lparr>surveys := surveys d @ [s]\<rparr>"
    and "constraints_ok d1" by auto
  then have fresh: "s_id s \<notin> set (map s_id (surveys d))"
    by (auto simp: constraints_ok_def pk_ok_def)
  from assms(1) have "\<forall>q \<in> set (questions d). q_surveyId q \<in> set (map s_id (surveys d))"
    by (simp add: fk_ok_def list_all_iff)
  with fresh have "\<forall>q \<in> set (questions d). q_surveyId q \<noteq> s_id s"
    by metis
  then have old: "filter (\<lambda>q. q_surveyId q = s_id s) (questions d) = []"
    by (simp add: filter_empty_conv)
  from sid have "filter (\<lambda>q. q_surveyId q = s_id s) new = new"
    by (simp add: list_all_iff)
  with old d' d1 have f: "filter (\<lambda>q. q_surveyId q = s_id s) (questions d') = new" by simp
  have "sorted (map int [0..<n])" for n
    by (simp add: sorted_map sorted_wrt_iff_nth_less)
  with ord have "sorted (map q_order new)" by simp
  then have "sort_key q_order new = new" by (rule sort_key_id_if_sorted)
  with f have "getQuestionsBySurvey d' (s_id s) = new"
    by (simp add: getQuestionsBySurvey_def)
  with ord texts show ?thesis by simp
qed

lemma route_post_survey_db0:
  "route_post_survey db0 50 gen0 ''u1'' body3 = (Json tea_survey, db_tea)"
  by (simp add: route_post_survey_def insertSurveySchema_parse_def
      insertQuestionSchema_parse_def createSurvey_def createQuestion_def or_default_def
      int4_ok_def commit_def constraints_ok_def pk_ok_def unique_ok_def fk_ok_def Let_def
      gen0_values body3_def mk_raw_question_def tea_survey_def tea_question_def db_tea_def
      db0_defs)

theorem post_survey_orders_dense_witness:
  "fk_ok db0
   \<and> route_post_survey db0 50 gen0 ''u1'' body3 = (Json tea_survey, db_tea)
   \<and> map q_order (getQuestionsBySurvey db_tea ''n0'') = [0, 1, 2]
   \<and> map (\<lambda>q. JStr (q_text q)) (getQuestionsBySurvey db_tea ''n0'')
       = [JStr ''One'', JStr ''Two'', JStr ''Three'']"
proof -
  have f: "fk_ok db0" using db0_constraints by (simp add: constraints_ok_def)
  have i: "s_id tea_survey = ''n0''" by (simp add: tea_survey_def)
  have u: "[0..<3] = [0, 1, 2]" by (simp add: upt_rec)
  from post_survey_orders_dense[OF f route_post_survey_db0]
  have "map q_order (getQuestionsBySurvey db_tea ''n0'') = [0, 1, 2]
   \<and> map (\<lambda>q. JStr (q_text q)) (getQuestionsBySurvey db_tea ''n0'')
       = [JStr ''One'', JStr ''Two'', JStr ''Three'']"
    by (simp add: i u or_default_def body3_def mk_raw_question_def)
  with f route_post_survey_db0 show ?thesis by blast
qed

text \<open>
  Claim C4 as stated fails. POST /api/surveys creates a survey with three questions,
  numbered 0, 1, 2; \<^verbatim>\<open>deleteQuestion\<close> of the second leaves the numbers 0 and 2.
\<close>

theorem deleteQuestion_leaves_gap_counterexample:
  "route_post_survey db0 50 gen0 ''u1'' body3 = (Json tea_survey, db_tea)
   \<and> map q_id (getQuestionsBySurvey db_tea ''n0'') = [''n2'', ''n3'', ''n4'']
   \<and> map q_order (getQuestionsBySurvey db_tea ''n0'') = [0, 1, 2]
   \<and> map q_order (getQuestionsBySurvey (deleteQuestion db_tea ''n3'') ''n0'') = [0, 2]"
  by (simp add: route_post_survey_def insertSurveySchema_parse_def
      insertQuestionSchema_parse_def createSurvey_def createQuestion_def or_default_def
      int4_ok_def commit_def constraints_ok_def pk_ok_def unique_ok_def fk_ok_def Let_def
      gen0_values body3_def mk_raw_question_def tea_survey_def tea_question_def db_tea_def
      db0_defs getQuestionsBySurvey_def deleteQuestion_def)

lemma insort_key_map_values:
  "insort_key g (h x) (map h ys) = map h (insort_key (\<lambda>y. g (h y)) x ys)"
  by (induction ys) auto

lemma sort_key_map_values: "sort_key g (map h xs) = map h (sort_key (\<lambda>y. g (h y)) xs)"
  by (induction xs) (auto simp: insort_key_map_values)

lemma Object_entries_map_values:
  "Object_entries (map (\<lambda>(k, v). (k, f k v)) ob) = map (\<lambda>(k, v). (k, f k v)) (Object_entries ob)"
proof -
  have 1: "filter (\<lambda>(k, v). P k) (map (\<lambda>(k, v). (k, f k v)) ob)
      = map (\<lambda>(k, v). (k, f k v)) (filter (\<lambda>(k, v). P k) ob)" for P
    by (induction ob) auto
  have 2: "(\<lambda>y. (case (case y of (k, v) \<Rightarrow> (k, f k v)) of (k, v) \<Rightarrow> digits_value k))
      = (\<lambda>(k, v). digits_value k)"
    by (auto simp: fun_eq_iff)
  show ?thesis
    unfolding Object_entries_def
    by (simp add: 1 sort_key_map_values 2)
qed

lemma obj_assign_existing:
  assumes "has_own ob k" and "k \<noteq> ''__proto__''"
  shows "obj_assign ob k v = map (\<lambda>(k', v'). (k', if k' = k then v else v')) ob"
  using assms by (auto simp: obj_assign_def obj_define_def)

lemma tally_counts:
  assumes "distinct (map fst counts)" and "\<not> has_own counts ''hasOwnProperty''"
    and "\<not> has_own counts ''__proto__''"
  shows "tally counts as
     = Inr (map (\<lambda>(k, c). (k, c + length (filter (\<lambda>a. a_value a = k) as))) counts)"
  using assms
proof (induction as arbitrary: counts)
  case Nil
  then show ?case by simp
next
  case (Cons a as)
  show ?case
  proof (cases "has_own counts (a_value a)")
    case False
    then have "\<forall>(k, c) \<in> set counts. a_value a \<noteq> k"
      by (force simp: has_own_def)
    then have "map (\<lambda>(k, c). (k, c + length (filter (\<lambda>a. a_value a = k) (a # as)))) counts
        = map (\<lambda>(k, c). (k, c + length (filter (\<lambda>a. a_value a = k) as))) counts"
      by (intro map_cong) auto
    with False Cons show ?thesis by simp
  next
    case True
    let ?k = "a_value a"
    let ?n = "or_default (map_of counts ?k) 0 + 1"
    let ?counts' = "map (\<lambda>(k', v'). (k', if k' = ?k then ?n else v')) counts"
    from True Cons.prems(3) have ne: "?k \<noteq> ''__proto__''" by auto
    from obj_assign_existing[OF True ne] have oa: "obj_assign counts ?k ?n = ?counts'" .
    have keys: "map fst ?counts' = map fst counts" by (induction counts) auto
    then have own: "has_own ?counts' k = has_own counts k" for k
      by (simp add: has_own_def)
    from Cons.prems(1) have d': "distinct (map fst ?counts')" by (simp only: keys)
    from Cons.prems(2,3) have h': "\<not> has_own ?counts' ''hasOwnProperty''"
      "\<not> has_own ?counts' ''__proto__''" by (simp_all only: own not_False_eq_True)
    have ih: "tally ?counts' as
        = Inr (map (\<lambda>(k, c). (k, c + length (filter (\<lambda>a. a_value a = k) as))) ?counts')"
      by (rule Cons.IH[OF d' h'])
    have "map (\<lambda>(k, c). (k, c + length (filter (\<lambda>a. a_value a = k) as))) ?counts'
        = map (\<lambda>(k, c). (k, c + length (filter (\<lambda>a. a_value a = k) (a # as)))) counts"
    proof -
      have "map_of counts k = Some c" if "(k, c) \<in> set counts" for k c
        using that Cons.prems(1) by simp
      then show ?thesis
        by (auto simp: or_default_def)
    qed
    with ih oa True Cons.prems(2) show ?thesis by simp
  qed
qed

lemma rating_counts_init:
  "fold (\<lambda>i rc. obj_assign rc (toString i) 0) [1..10] ([] :: nat jsobject)
     = map (\<lambda>i. (toString i, 0)) [1..10]"
  by (simp add: upto.simps toString.simps digit_char_def obj_assign_def obj_define_def
      has_own_def)

lemma rating_keys:
  "distinct (map toString [1..10])"
  "''hasOwnProperty'' \<notin> set (map toString [1..10])"
  "''__proto__'' \<notin> set (map toString [1..10])"
  by (simp_all add: upto.simps toString.simps digit_char_def)

lemma rating_entries:
  "Object_entries (map (\<lambda>i. (toString i, 0 :: nat)) [1..10]) = map (\<lambda>i. (toString i, 0)) [1..10]"
  by (simp add: upto.simps toString.simps digit_char_def Object_entries_def is_array_index_def
      digits_value_def digit_value_def or_default_def)

text \<open>
  Claim C9. For a question of type \<^verbatim>\<open>rating\<close>, once the response data is there, the
  aggregation returns ten entries, named 1 to 10 in this order, each with the number of
  the question's answers whose value is that numeral. With no answers every count is 0.
\<close>

theorem rating_ten_buckets:
  assumes "q_type question = ''rating''"
  shows "getQuestionAnalytics (Some rd) question
     = Inr (Chart (map (\<lambda>i. \<lparr> ce_name = toString i,
                 ce_value = length (filter (\<lambda>a. a_questionId a = q_id question
                                            \<and> a_value a = toString i) (rd_answers rd)),
                 ce_fullName = None \<rparr>) [1..10]))"
proof -
  let ?qa = "filter (\<lambda>a. a_questionId a = q_id question) (rd_answers rd)"
  let ?init = "map (\<lambda>i. (toString i, 0 :: nat)) [1..10]"
  have keys: "map fst ?init = map toString [1..10]" by (simp add: o_def)
  have d: "distinct (map fst ?init)" unfolding keys by (rule rating_keys(1))
  have h: "\<not> has_own ?init ''hasOwnProperty''" "\<not> has_own ?init ''__proto__''"
    unfolding has_own_def keys by (rule rating_keys(2), rule rating_keys(3))
  have t: "tally ?init ?qa
      = Inr (map (\<lambda>(k, c). (k, c + length (filter (\<lambda>a. a_value a = k) ?qa))) ?init)"
    by (rule tally_counts[OF d h])
  have e: "Object_entries (map (\<lambda>(k, c). (k, c + length (filter (\<lambda>a. a_value a = k) ?qa))) ?init)
      = map (\<lambda>(k, c). (k, c + length (filter (\<lambda>a. a_value a = k) ?qa))) ?init"
    by (simp only: Object_entries_map_values rating_entries)
  have c: "length (filter (\<lambda>a. a_value a = k) ?qa)
      = length (filter (\<lambda>a. a_questionId a = q_id question \<and> a_value a = k) (rd_answers rd))" for k
    by (simp add: conj_commute)
  have ne: "(''rating'' = ''multiple-choice'') = False" by simp
  have "getQuestionAnalytics (Some rd) question
      = (case tally (fold (\<lambda>i rc. obj_assign rc (toString i) 0) [1..10] []) ?qa of
           Inl e \<Rightarrow> Inl e
         | Inr rc \<Rightarrow>
             Inr (Chart (map (\<lambda>(rating, n).
                    \<lparr> ce_name = rating, ce_value = n, ce_fullName = None \<rparr>)
                  (Object_entries rc))))"
    by (simp only: getQuestionAnalytics_def Let_def option.case assms ne if_False if_True
        simp_thms)
  also have "\<dots> = Inr (Chart (map (\<lambda>(rating, n).
                    \<lparr> ce_name = rating, ce_value = n, ce_fullName = None \<rparr>)
        (map (\<lambda>(k, c). (k, c + length (filter (\<lambda>a. a_value a = k) ?qa))) ?init)))"
    by (simp only: rating_counts_init t sum.case e)
  also have "\<dots> = Inr (Chart (map (\<lambda>i. \<lparr> ce_name = toString i,
                 ce_value = length (filter (\<lambda>a. a_questionId a = q_id question
                                            \<and> a_value a = toString i) (rd_answers rd)),
                 ce_fullName = None \<rparr>) [1..10]))"
    by (simp add: o_def c)
  finally show ?thesis .
qed

theorem rating_ten_buckets_witness:
  "q_type (mk_question ''q2'' ''s1'' ''rating'' False None 1) = ''rating''
   \<and> getQuestionAnalytics (Some \<lparr> rd_responses = [], rd_answers = [] \<rparr>)
        (mk_question ''q2'' ''s1'' ''rating'' False None 1)
     = Inr (Chart [\<lparr> ce_name = ''1'', ce_value = 0, ce_fullName = None \<rparr>,
                   \<lparr> ce_name = ''2'', ce_value = 0, ce_fullName = None \<rparr>,
                   \<lparr> ce_name = ''3'', ce_value = 0, ce_fullName = None \<rparr>,
                   \<lparr> ce_name = ''4'', ce_value = 0, ce_fullName = None \<rparr>,
                   \<lparr> ce_name = ''5'', ce_value = 0, ce_fullName = None \<rparr>,
                   \<lparr> ce_name = ''6'', ce_value = 0, ce_fullName = None \<rparr>,
                   \<lparr> ce_name = ''7'', ce_value = 0, ce_fullName = None \<rparr>,
                   \<lparr> ce_name = ''8'', ce_value = 0, ce_fullName = None \<rparr>,
                   \<lparr> ce_name = ''9'', ce_value = 0, ce_fullName = None \<rparr>,
                   \<lparr> ce_name = ''10'', ce_value = 0, ce_fullName = None \<rparr>])"
proof -
  have t: "q_type (mk_question ''q2'' ''s1'' ''rating'' False None 1) = ''rating''"
    by (simp add: mk_question_def)
  from rating_ten_buckets[OF t, of "\<lparr> rd_responses = [], rd_answers = [] \<rparr>"] t
  show ?thesis
    by (simp add: upto.simps toString.simps digit_char_def)
qed

lemma option_counts_init:
  "fold (\<lambda>option oc. obj_assign oc option 0) opts ([] :: nat jsobject)
     = map (\<lambda>option. (option, 0))
         (rev (remdups (rev (filter (\<lambda>option. option \<noteq> ''__proto__'') opts))))"
proof (induction opts rule: rev_induct)
  case Nil
  show ?case by simp
next
  case (snoc x xs)
  let ?D = "rev (remdups (rev (filter (\<lambda>option. option \<noteq> ''__proto__'') xs)))"
  have keys: "set ?D = set (filter (\<lambda>option. option \<noteq> ''__proto__'') xs)" by simp
  have f: "fold (\<lambda>option oc. obj_assign oc option 0) (xs @ [x]) ([] :: nat jsobject)
      = obj_assign (map (\<lambda>option. (option, 0)) ?D) x 0"
    by (simp add: snoc.IH)
  show ?case
  proof (cases "x = ''__proto__''")
    case True
    with f show ?thesis by (simp add: obj_assign_def)
  next
    case False
    note np = this
    show ?thesis
    proof (cases "x \<in> set xs")
      case True
      with np have own: "has_own (map (\<lambda>option. (option, 0 :: nat)) ?D) x"
        by (simp add: has_own_def o_def)
      have "map (\<lambda>(k', v'). if k' = x then (k', 0) else (k', v')) (map (\<lambda>option. (option, 0 :: nat)) ?D)
          = map (\<lambda>option. (option, 0)) ?D"
        by (simp add: o_def)
      with own np f True show ?thesis
        by (simp add: obj_assign_def obj_define_def)
    next
      case False
      with np have own: "\<not> has_own (map (\<lambda>option. (option, 0 :: nat)) ?D) x"
        by (simp add: has_own_def o_def)
      with np f False show ?thesis
        by (simp add: obj_assign_def obj_define_def)
    qed
  qed
qed

lemma Object_entries_no_index:
  assumes "list_all (\<lambda>(k, v). \<not> is_array_index k) ob"
  shows "Object_entries ob = ob"
proof -
  from assms have "filter (\<lambda>(k, v). is_array_index k) ob = []"
    by (auto simp: list_all_iff filter_empty_conv)
  moreover from assms have "filter (\<lambda>(k, v). \<not> is_array_index k) ob = ob"
    by (auto simp: list_all_iff intro: filter_True)
  ultimately show ?thesis by (simp add: Object_entries_def)
qed

text \<open>
  Claim C5, as the code has it. For a question of type \<^verbatim>\<open>multiple-choice\<close> none of
  whose options is named \<^verbatim>\<open>hasOwnProperty\<close>, once the response data is there, the
  aggregation returns one entry per distinct declared option (an option named
  \<^verbatim>\<open>__proto__\<close> gets none), with the number of the question's answers whose value is
  that option; answers with any other value are counted nowhere. The entries come in
  the order of \<^verbatim>\<open>Object.entries\<close>: the options that are array indices first, in
  ascending numeric order, then the others in the order of their first declaration.
  When the options are distinct and none is an array index or \<^verbatim>\<open>__proto__\<close>, that is
  one entry per declared option, in declaration order.
\<close>

theorem multiple_choice_counts:
  assumes "q_type question = ''multiple-choice''"
    and "''hasOwnProperty'' \<notin> set (or_default (q_options question) [])"
  shows "getQuestionAnalytics (Some rd) question
     = Inr (Chart (map (\<lambda>(option, n).
                 \<lparr> ce_name = (if length option > 20 then take 20 option @ ''...'' else option),
                   ce_value = n, ce_fullName = Some option \<rparr>)
         (Object_entries
           (map (\<lambda>option. (option, length (filter (\<lambda>a. a_questionId a = q_id question
                                                     \<and> a_value a = option) (rd_answers rd))))
              (rev (remdups (rev (filter (\<lambda>option. option \<noteq> ''__proto__'')
                                    (or_default (q_options question) [])))))))))
   \<and> (distinct (or_default (q_options question) [])
        \<and> list_all (\<lambda>option. \<not> is_array_index option \<and> option \<noteq> ''__proto__'')
             (or_default (q_options question) [])
      \<longrightarrow> getQuestionAnalytics (Some rd) question
         = Inr (Chart (map (\<lambda>option.
                 \<lparr> ce_name = (if length option > 20 then take 20 option @ ''...'' else option),
                   ce_value = length (filter (\<lambda>a. a_questionId a = q_id question
                                               \<and> a_value a = option) (rd_answers rd)),
                   ce_fullName = Some option \<rparr>)
             (or_default (q_options question) []))))"
proof -
  let ?opts = "or_default (q_options question) []"
  let ?D = "rev (remdups (rev (filter (\<lambda>option. option \<noteq> ''__proto__'') ?opts)))"
  let ?qa = "filter (\<lambda>a. a_questionId a = q_id question) (rd_answers rd)"
  let ?init = "map (\<lambda>option. (option, 0 :: nat)) ?D"
  let ?n = "\<lambda>option. length (filter (\<lambda>a. a_questionId a = q_id question
                                        \<and> a_value a = option) (rd_answers rd))"
  let ?entry = "\<lambda>(option, n).
                 \<lparr> ce_name = (if length option > 20 then take 20 option @ ''...'' else option),
                   ce_value = n, ce_fullName = Some option \<rparr>"
  have keys: "map fst ?init = ?D" by (simp add: o_def)
  have d: "distinct (map fst ?init)" unfolding keys by simp
  from assms(2) have h: "\<not> has_own ?init ''hasOwnProperty''" "\<not> has_own ?init ''__proto__''"
    unfolding has_own_def keys by simp_all
  have c: "length (filter (\<lambda>a. a_value a = k) ?qa) = ?n k" for k
    by (simp add: conj_commute)
  have t: "tally ?init ?qa = Inr (map (\<lambda>option. (option, ?n option)) ?D)"
    unfolding tally_counts[OF d h] by (simp add: o_def c)
  have "getQuestionAnalytics (Some rd) question
      = (case tally (fold (\<lambda>option oc. obj_assign oc option 0) ?opts []) ?qa of
           Inl e \<Rightarrow> Inl e
         | Inr oc \<Rightarrow> Inr (Chart (map ?entry (Object_entries oc))))"
    by (simp only: getQuestionAnalytics_def Let_def option.case assms(1) if_True simp_thms)
  also have "\<dots> = Inr (Chart (map ?entry (Object_entries (map (\<lambda>option. (option, ?n option)) ?D))))"
    by (simp only: option_counts_init t sum.case)
  finally have general: "getQuestionAnalytics (Some rd) question
      = Inr (Chart (map ?entry (Object_entries (map (\<lambda>option. (option, ?n option)) ?D))))" .
  have special: "getQuestionAnalytics (Some rd) question
         = Inr (Chart (map (\<lambda>option.
                 \<lparr> ce_name = (if length option > 20 then take 20 option @ ''...'' else option),
                   ce_value = ?n option, ce_fullName = Some option \<rparr>) ?opts))"
    if dis: "distinct ?opts"
      and ok: "list_all (\<lambda>option. \<not> is_array_index option \<and> option \<noteq> ''__proto__'') ?opts"
  proof -
    from ok have "filter (\<lambda>option. option \<noteq> ''__proto__'') ?opts = ?opts"
      by (auto simp: list_all_iff intro: filter_True)
    with dis have D: "?D = ?opts" by (simp add: distinct_remdups_id)
    from ok have "list_all (\<lambda>(k, v). \<not> is_array_index k) (map (\<lambda>option. (option, ?n option)) ?opts)"
      by (simp add: list_all_iff)
    then have "Object_entries (map (\<lambda>option. (option, ?n option)) ?opts)
        = map (\<lambda>option. (option, ?n option)) ?opts"
      by (rule Object_entries_no_index)
    with general D show ?thesis by (simp add: o_def)
  qed
  from general special show ?thesis by blast
qed

theorem multiple_choice_counts_witness:
  "q_type (mk_question ''q1'' ''s1'' ''multiple-choice'' True (Some [''A'', ''B'']) 0)
     = ''multiple-choice''
   \<and> ''hasOwnProperty'' \<notin> set [''A'', ''B'']
   \<and> map a_value (filter (\<lambda>a. a_questionId a = ''q1'') (answers db0)) = [''A'', ''A'', ''B'', ''C'']
   \<and> getQuestionAnalytics (Some \<lparr> rd_responses = responses db0, rd_answers = answers db0 \<rparr>)
        (mk_question ''q1'' ''s1'' ''multiple-choice'' True (Some [''A'', ''B'']) 0)
     = Inr (Chart [\<lparr> ce_name = ''A'', ce_value = 2, ce_fullName = Some ''A'' \<rparr>,
                   \<lparr> ce_name = ''B'', ce_value = 1, ce_fullName = Some ''B'' \<rparr>])"
proof -
  let ?q = "mk_question ''q1'' ''s1'' ''multiple-choice'' True (Some [''A'', ''B'']) 0"
  have t: "q_type ?q = ''multiple-choice''" by (simp add: mk_question_def)
  have h: "''hasOwnProperty'' \<notin> set (or_default (q_options ?q) [])"
    by (simp add: mk_question_def or_default_def)
  have a: "map a_value (filter (\<lambda>a. a_questionId a = ''q1'') (answers db0))
      = [''A'', ''A'', ''B'', ''C'']"
    by (simp add: db0_defs)
  have i: "\<not> is_array_index ''A''" "\<not> is_array_index ''B''"
    by (simp_all add: is_array_index_def digit_value_def)
  have pre: "distinct (or_default (q_options ?q) [])
      \<and> list_all (\<lambda>option. \<not> is_array_index option \<and> option \<noteq> ''__proto__'')
            (or_default (q_options ?q) [])"
    by (simp add: mk_question_def or_default_def i)
  have rhs: "map (\<lambda>option.
                 \<lparr> ce_name = (if length option > 20 then take 20 option @ ''...'' else option),
                   ce_value = length (filter (\<lambda>a. a_questionId a = q_id ?q
                        \<and> a_value a = option)
                      (rd_answers \<lparr> rd_responses = responses db0, rd_answers = answers db0 \<rparr>)),
                   ce_fullName = Some option \<rparr>)
             (or_default (q_options ?q) [])
      = [\<lparr> ce_name = ''A'', ce_value = 2, ce_fullName = Some ''A'' \<rparr>,
         \<lparr> ce_name = ''B'', ce_value = 1, ce_fullName = Some ''B'' \<rparr>]"
    by (simp add: or_default_def db0_defs)
  from multiple_choice_counts[OF t h,
      of "\<lparr> rd_responses = responses db0, rd_answers = answers db0 \<rparr>", THEN conjunct2,
      rule_format, OF pre]
  have "getQuestionAnalytics (Some \<lparr> rd_responses = responses db0, rd_answers = answers db0 \<rparr>) ?q
     = Inr (Chart [\<lparr> ce_name = ''A'', ce_value = 2, ce_fullName = Some ''A'' \<rparr>,
                   \<lparr> ce_name = ''B'', ce_value = 1, ce_fullName = Some ''B'' \<rparr>])"
    by (simp only: rhs)
  with t a show ?thesis by simp
qed

text \<open>
  Claim C5 as stated fails on the order. With the options declared as 2, 1 and one
  answer 2, the entry for 1 comes first: \<^verbatim>\<open>Object.entries\<close> lists array-index keys in
  numeric order, whatever the order in which they were stored.
\<close>

theorem multiple_choice_order_counterexample:
  "getQuestionAnalytics
       (Some \<lparr> rd_responses = [], rd_answers = [mk_answer ''a9'' ''r9'' ''q9'' ''2''] \<rparr>)
       (mk_question ''q9'' ''s1'' ''multiple-choice'' False (Some [''2'', ''1'']) 0)
     = Inr (Chart [\<lparr> ce_name = ''1'', ce_value = 0, ce_fullName = Some ''1'' \<rparr>,
                   \<lparr> ce_name = ''2'', ce_value = 1, ce_fullName = Some ''2'' \<rparr>])"
  by (simp add: getQuestionAnalytics_def Let_def or_default_def obj_assign_def obj_define_def
      has_own_def Object_entries_def is_array_index_def digits_value_def digit_value_def
      mk_question_def mk_answer_def)

end
